theory Spec2Isabelle
  imports Main "HOL-Library.Word"
begin

section \<open>yabc: the posts create command and the Bluesky request flows\<close>

text \<open>
  A shallow embedding of \<open>cmd/posts/create.go\<close>, \<open>cmd/root.go\<close> and
  \<open>internal/bluesky/post.go\<close>. Go strings are byte sequences, so they are
  \<open>string\<close> (lists of 8-bit characters): \<open>len\<close> is \<open>length\<close> and
  \<open>s[:n]\<close> is \<open>take n s\<close> where \<open>n \<le> len(s)\<close>, a panic otherwise.
\<close>

subsection \<open>Data model\<close>

text \<open>The session token \<open>DIDResponse\<close> (only the fields the request flows read).\<close>

record DIDResponse =
  DID :: string
  AccessJwt :: string

record RefLink =
  Link :: string

text \<open>The anonymous struct \<open>Blob\<close> of \<open>UploadBlobResponse\<close>; \<open>Size\<close> is an \<open>int64\<close>.\<close>

record BlobStruct =
  Type :: string
  Ref :: RefLink
  MimeType :: string
  Size :: "64 word"

record UploadBlobResponse =
  Blob :: BlobStruct

record PostRecord =
  RecType :: string
  RecText :: string
  CreatedAt :: string

record PostCreateResponse =
  URI :: string
  CID :: string
  Record :: PostRecord

text \<open>Values of \<open>map[string]interface{}\<close>, as they are marshalled to and decoded from JSON.\<close>

datatype json =
    JNull
  | JBool bool
  | JNum int
  | JString string
  | JArray "json list"
  | JObject "(string \<times> json) list"

text \<open>
  Go \<open>error\<close> values. \<open>External\<close> is an error made by the operating system or a
  library; every other constructor is one \<open>fmt.Errorf\<close> of the source, with its
  arguments (a wrapped error where the format has \<open>%w\<close>).
\<close>

datatype error =
    External string
  | CredentialsMissing
  | AuthenticationFailed error
  | ImageNotExist string
  | CannotAccessImage error
  | ReadImageFailed error
  | ImageTooLarge nat
  | CreateRequestFailed error
  | SendRequestFailed error
  | ReadBodyFailed error
  | ApiError string
  | UnexpectedStatusBody int string
  | DecodeResponseFailed error string
  | MissingBlobLink string
  | UploadImageFailed error
  | MarshalFailed error
  | UnexpectedStatus int
  | OpenImageFailed error
  | DecodeDimensionsFailed error

text \<open>What ends the process instead of returning: a run-time panic or \<open>os.Exit\<close>.\<close>

datatype abort = Panic string | Exit int

text \<open>The observable effects of a run, in order.\<close>

datatype level = Info | Warn | Error

datatype attr = AString string | AInt int | AError error | AJson "(string \<times> json) list"

record http_request =
  Method :: string
  Url :: string
  Authorization :: string
  ContentType :: string
  ReqBody :: string
  Timeout :: "nat option"

record http_response =
  StatusCode :: int
  Body :: "error + string"

datatype event =
    Slog level string "(string \<times> attr) list"
  | Println string
  | SessionRequest string string
  | NewRequest string string
  | Send http_request
  | Response string int

datatype stat_result = StatOk | StatNotExist | StatError error

record utc_time =
  Year :: int
  Month :: nat
  Day :: nat
  Hour :: nat
  Minute :: nat
  Second :: nat
  Nanosecond :: nat

text \<open>
  Everything a run reads from outside the program: the clock, the file system, the
  network, the terminal, and the library functions (JSON, image decoding, Unicode
  tables) whose code is not part of this repository. \<open>API_URL\<close> is the constant of
  package \<open>bluesky\<close>, declared outside \<open>post.go\<close>.
\<close>

record env =
  now :: utc_time
  API_URL :: string
  credentials :: "(string \<times> string) option"
  create_session :: "string \<Rightarrow> string \<Rightarrow> error + DIDResponse"
  form_Run :: "error + (string \<times> string \<times> string)"
  os_Stat :: "string \<Rightarrow> stat_result"
  os_ReadFile :: "string \<Rightarrow> error + string"
  os_Open :: "string \<Rightarrow> error option"
  image_DecodeConfig :: "string \<Rightarrow> error + (int \<times> int)"
  http_NewRequest :: "string \<Rightarrow> string \<Rightarrow> error option"
  client_Do :: "http_request \<Rightarrow> error + http_response"
  json_Marshal :: "json \<Rightarrow> error + string"
  json_Unmarshal_map :: "string \<Rightarrow> error + (string \<times> json) list"
  json_Unmarshal_blob :: "string \<Rightarrow> error + UploadBlobResponse"
  json_Unmarshal_post :: "string \<Rightarrow> error + PostCreateResponse"
  unicode_ToLower :: "string \<Rightarrow> string"
  unicode_TrimSpace :: "string \<Rightarrow> string"

subsection \<open>Library functions the code calls\<close>

text \<open>
  \<open>strings.ToLower\<close>: a string of ASCII bytes is lowered byte by byte; any other string
  goes through the Unicode tables (\<open>unicode_ToLower\<close>).
\<close>

definition is_ascii :: "char \<Rightarrow> bool" where
  "is_ascii c = ((of_char c :: nat) < 128)"

definition ascii_lower :: "char \<Rightarrow> char" where
  "ascii_lower c =
     (if (65::nat) \<le> of_char c \<and> (of_char c :: nat) \<le> 90 then char_of ((of_char c :: nat) + 32) else c)"

definition ToLower :: "env \<Rightarrow> string \<Rightarrow> string" where
  "ToLower e s = (if list_all is_ascii s then map ascii_lower s else unicode_ToLower e s)"

text \<open>
  \<open>filepath.Ext\<close> (Unix, where the only path separator is the slash):
  \<^verbatim>\<open>for i := len(path) - 1; i >= 0 && !os.IsPathSeparator(path[i]); i-- {
      if path[i] == '.' { return path[i:] } }
  return ""\<close>
  The loop counter of the model is \<open>i + 1\<close>.
\<close>

definition IsPathSeparator :: "char \<Rightarrow> bool" where
  "IsPathSeparator c = (c = CHR ''/'')"

fun Ext_loop :: "string \<Rightarrow> nat \<Rightarrow> string" where
  "Ext_loop path 0 = []"
| "Ext_loop path (Suc i) =
     (if IsPathSeparator (path ! i) then []
      else if path ! i = CHR ''.'' then drop i path
      else Ext_loop path i)"

definition Ext :: "string \<Rightarrow> string" where
  "Ext path = Ext_loop path (length path)"

text \<open>\<open>strings.Split(s, ",")\<close> with a one-byte separator: one more part than separators.\<close>

fun Split :: "string \<Rightarrow> char \<Rightarrow> string list" where
  "Split [] sep = [[]]"
| "Split (c # cs) sep =
     (if c = sep then [] # Split cs sep
      else (case Split cs sep of [] \<Rightarrow> [[c]] | p # ps \<Rightarrow> (c # p) # ps))"

text \<open>
  \<open>strings.TrimSpace\<close>: on a string of ASCII bytes it drops the leading and trailing
  tab, newline, vertical tab, form feed, carriage return and space; any other string goes
  through the Unicode tables (\<open>unicode_TrimSpace\<close>).
\<close>

definition asciiSpace :: "char \<Rightarrow> bool" where
  "asciiSpace c = ((of_char c :: nat) \<in> {9, 10, 11, 12, 13, 32})"

definition TrimSpace :: "env \<Rightarrow> string \<Rightarrow> string" where
  "TrimSpace e s =
     (if list_all is_ascii s then rev (dropWhile asciiSpace (rev (dropWhile asciiSpace s)))
      else unicode_TrimSpace e s)"

text \<open>
  \<open>time.Time.Format\<close> with the layout \<open>RFC3339Nano\<close>
  (\<open>2006-01-02T15:04:05.999999999Z07:00\<close>) on a UTC time. \<open>appendInt\<close> writes a sign
  and the decimal digits, zero-padded to the width; \<open>appendNano\<close> writes the fraction
  with its trailing zeros removed, and nothing at all when the fraction is zero; the zone
  of a UTC time is \<open>Z\<close>.
\<close>

fun digits :: "nat \<Rightarrow> string" where
  "digits n = (if n < 10 then [''0123456789'' ! n] else digits (n div 10) @ [''0123456789'' ! (n mod 10)])"

declare digits.simps [simp del]

definition appendInt :: "int \<Rightarrow> nat \<Rightarrow> string" where
  "appendInt x width =
     (let ds = digits (nat \<bar>x\<bar>)
      in (if x < 0 then ''-'' else []) @ replicate (width - length ds) (CHR ''0'') @ ds)"

definition trim_zeros :: "string \<Rightarrow> string" where
  "trim_zeros b = rev (dropWhile (\<lambda>c. c = CHR ''0'') (rev b))"

definition appendNano :: "nat \<Rightarrow> string" where
  "appendNano nanosec =
     (if nanosec = 0 then []
      else (let b = trim_zeros (''.'' @ appendInt (int nanosec) 9)
            in if b \<noteq> [] \<and> last b = CHR ''.'' then butlast b else b))"

definition format_RFC3339Nano :: "utc_time \<Rightarrow> string" where
  "format_RFC3339Nano t =
     appendInt (Year t) 4 @ ''-'' @ appendInt (int (Month t)) 2 @ ''-'' @ appendInt (int (Day t)) 2
     @ ''T'' @ appendInt (int (Hour t)) 2 @ '':'' @ appendInt (int (Minute t)) 2
     @ '':'' @ appendInt (int (Second t)) 2 @ appendNano (Nanosecond t) @ ''Z''"

subsection \<open>internal/bluesky/post.go\<close>

text \<open>
  \<^verbatim>\<open>return time.Now().UTC().Format(time.RFC3339Nano)[:23] + "Z"\<close>
  Slicing a string beyond its length is a run-time panic.
\<close>

definition getCurrentTime :: "env \<Rightarrow> abort + string" where
  "getCurrentTime e =
     (let s = format_RFC3339Nano (now e)
      in if 23 \<le> length s then Inr (take 23 s @ ''Z'')
         else Inl (Panic ''slice bounds out of range''))"

definition getMimeType :: "env \<Rightarrow> string \<Rightarrow> string" where
  "getMimeType e filename =
     (let ext = ToLower e (Ext filename)
      in if ext = ''.jpg'' \<or> ext = ''.jpeg'' then ''image/jpeg''
         else if ext = ''.png'' then ''image/png''
         else if ext = ''.gif'' then ''image/gif''
         else if ext = ''.webp'' then ''image/webp''
         else [])"

text \<open>
  The timestamp the specification asks for, written from its words: ISO 8601 in UTC with
  millisecond precision, \<open>YYYY-MM-DDThh:mm:ss.mmmZ\<close>. \<open>fixed w n\<close> is \<open>n\<close> in exactly
  \<open>w\<close> decimal digits.
\<close>

fun fixed :: "nat \<Rightarrow> nat \<Rightarrow> string" where
  "fixed 0 n = []"
| "fixed (Suc w) n = fixed w (n div 10) @ [''0123456789'' ! (n mod 10)]"

definition iso8601_millis :: "utc_time \<Rightarrow> string" where
  "iso8601_millis t =
     fixed 4 (nat (Year t)) @ ''-'' @ fixed 2 (Month t) @ ''-'' @ fixed 2 (Day t)
     @ ''T'' @ fixed 2 (Hour t) @ '':'' @ fixed 2 (Minute t) @ '':'' @ fixed 2 (Second t)
     @ ''.'' @ fixed 3 (Nanosecond t div 1000000) @ ''Z''"

text \<open>The fields of a time as the clock gives them, in the years 0 to 9999.\<close>

definition valid_time :: "utc_time \<Rightarrow> bool" where
  "valid_time t =
     (0 \<le> Year t \<and> Year t \<le> 9999 \<and> 1 \<le> Month t \<and> Month t \<le> 12 \<and> 1 \<le> Day t \<and> Day t \<le> 31
      \<and> Hour t \<le> 23 \<and> Minute t \<le> 59 \<and> Second t \<le> 59 \<and> Nanosecond t \<le> 999999999)"

subsection \<open>Composing the post content\<close>

text \<open>
  \<^verbatim>\<open>content := text
  for _, tag := range hashtags { content += fmt.Sprintf(" #%s", tag) }\<close>
\<close>

fun compose_content :: "string \<Rightarrow> string list \<Rightarrow> string" where
  "compose_content content [] = content"
| "compose_content content (tag # tags) = compose_content (content @ '' #'' @ tag) tags"

subsection \<open>uploadImage\<close>

text \<open>
  The request \<open>uploadImage\<close> builds: the raw image bytes as the body, the bearer token,
  the resolved content type, and a client with a timeout of 30 seconds.
\<close>

definition upload_url :: "env \<Rightarrow> string" where
  "upload_url e = API_URL e @ ''/com.atproto.repo.uploadBlob''"

definition upload_request :: "env \<Rightarrow> DIDResponse \<Rightarrow> string \<Rightarrow> string \<Rightarrow> http_request" where
  "upload_request e token imgData mimeType =
     \<lparr>Method = ''POST'', Url = upload_url e,
      Authorization = ''Bearer '' @ AccessJwt token, ContentType = mimeType,
      ReqBody = imgData, Timeout = Some 30\<rparr>"

text \<open>
  The part of \<open>uploadImage\<close> after the response body has been read: a status other than
  200 is an error (the message of the decoded error body when it has one), then the body
  is decoded and the blob link must not be empty.
\<close>

definition upload_result ::
  "env \<Rightarrow> string \<Rightarrow> int \<Rightarrow> string \<Rightarrow> event list \<times> (error + UploadBlobResponse)" where
  "upload_result e imgData status respBody =
     (if status \<noteq> 200 then
        (case json_Unmarshal_map e respBody of
           Inr errResp \<Rightarrow>
             (case map_of errResp ''message'' of
                Some (JString message) \<Rightarrow>
                  ([Slog Error ''API error response'' [(''response'', AJson errResp)]],
                   Inl (ApiError message))
              | _ \<Rightarrow>
                  ([Slog Error ''API error response'' [(''response'', AJson errResp)]],
                   Inl (UnexpectedStatusBody status respBody)))
         | Inl _ \<Rightarrow> ([], Inl (UnexpectedStatusBody status respBody)))
      else
        (case json_Unmarshal_blob e respBody of
           Inl err \<Rightarrow> ([], Inl (DecodeResponseFailed err respBody))
         | Inr blobResp \<Rightarrow>
             if Link (Ref (Blob blobResp)) = [] then ([], Inl (MissingBlobLink respBody))
             else ([Slog Info ''Image uploaded successfully''
                      [(''blob_link'', AString (Link (Ref (Blob blobResp)))),
                       (''size'', AInt (int (length imgData)))]],
                   Inr blobResp)))"

text \<open>The part of \<open>uploadImage\<close> from \<open>http.NewRequest\<close> on.\<close>

definition upload_send ::
  "env \<Rightarrow> DIDResponse \<Rightarrow> string \<Rightarrow> string \<Rightarrow> event list \<times> (error + UploadBlobResponse)" where
  "upload_send e token imgData mimeType =
     (case http_NewRequest e ''POST'' (upload_url e) of
        Some err \<Rightarrow> ([NewRequest ''POST'' (upload_url e)], Inl (CreateRequestFailed err))
      | None \<Rightarrow>
          (let req = upload_request e token imgData mimeType;
               evs = [NewRequest ''POST'' (upload_url e), Send req]
           in case client_Do e req of
                Inl err \<Rightarrow> (evs, Inl (SendRequestFailed err))
              | Inr resp \<Rightarrow>
                  (case Body resp of
                     Inl err \<Rightarrow> (evs @ [Response (upload_url e) (StatusCode resp)], Inl (ReadBodyFailed err))
                   | Inr respBody \<Rightarrow>
                       (let (evs', r) = upload_result e imgData (StatusCode resp) respBody
                        in (evs @ [Response (upload_url e) (StatusCode resp)] @ evs', r)))))"

text \<open>
  \<^verbatim>\<open>mimeType := getMimeType(imagePath)
  if mimeType == "" { mimeType = "image/jpeg" }\<close>
\<close>

definition resolved_mimeType :: "env \<Rightarrow> string \<Rightarrow> string" where
  "resolved_mimeType e imagePath =
     (if getMimeType e imagePath = [] then ''image/jpeg'' else getMimeType e imagePath)"

definition uploadImage ::
  "env \<Rightarrow> DIDResponse \<Rightarrow> string \<Rightarrow> event list \<times> (error + UploadBlobResponse)" where
  "uploadImage e token imagePath =
     (case os_Stat e imagePath of
        StatNotExist \<Rightarrow> ([], Inl (ImageNotExist imagePath))
      | StatError err \<Rightarrow> ([], Inl (CannotAccessImage err))
      | StatOk \<Rightarrow>
          (case os_ReadFile e imagePath of
             Inl err \<Rightarrow> ([], Inl (ReadImageFailed err))
           | Inr imgData \<Rightarrow>
               if length imgData > 1000000 then ([], Inl (ImageTooLarge (length imgData)))
               else
                 (let mimeType = resolved_mimeType e imagePath;
                      (evs, r) = upload_send e token imgData mimeType
                  in (Slog Info ''Uploading image''
                        [(''path'', AString imagePath), (''size'', AInt (int (length imgData))),
                         (''mimeType'', AString mimeType)] # evs, r))))"

definition getImageDimensions :: "env \<Rightarrow> string \<Rightarrow> error + (int \<times> int)" where
  "getImageDimensions e imagePath =
     (case os_Open e imagePath of
        Some err \<Rightarrow> Inl (OpenImageFailed err)
      | None \<Rightarrow>
          (case image_DecodeConfig e imagePath of
             Inl err \<Rightarrow> Inl (DecodeDimensionsFailed err)
           | Inr (w, h) \<Rightarrow> Inr (w, h)))"

subsection \<open>CreatePost\<close>

text \<open>
  The image part of \<open>CreatePost\<close>: upload, dimensions (a failure is a warning, and the
  width and height are then 0), and the embed added to the record.
\<close>

definition image_embed :: "UploadBlobResponse \<Rightarrow> int \<Rightarrow> int \<Rightarrow> json" where
  "image_embed blobResp width height =
     JObject
       ([(''alt'', JString ''Attached image''),
         (''image'', JObject
            [(''$type'', JString ''blob''),
             (''ref'', JObject [(''$link'', JString (Link (Ref (Blob blobResp))))]),
             (''mimeType'', JString (MimeType (Blob blobResp))),
             (''size'', JNum (sint (Size (Blob blobResp))))])]
        @ (if width > 0 \<and> height > 0
           then [(''aspectRatio'', JObject [(''width'', JNum width), (''height'', JNum height)])]
           else []))"

definition attach_image ::
  "env \<Rightarrow> DIDResponse \<Rightarrow> string \<Rightarrow> event list \<times> (error + (string \<times> json) list)" where
  "attach_image e token imagePath =
     (case uploadImage e token imagePath of
        (evs, Inl err) \<Rightarrow>
          (Println (''Uploading image: '' @ imagePath) # evs, Inl (UploadImageFailed err))
      | (evs, Inr blobResp) \<Rightarrow>
          (let (evs', width, height) =
                 (case getImageDimensions e imagePath of
                    Inl err \<Rightarrow>
                      ([Slog Warn ''Could not determine image dimensions'' [(''error'', AError err)],
                        Println ''Warning: Could not determine image dimensions, aspect ratio won't be specified''],
                       0, 0)
                  | Inr (w, h) \<Rightarrow> ([], w, h))
           in (Println (''Uploading image: '' @ imagePath) # evs @ evs',
               Inr [(''embed'', JObject
                       [(''$type'', JString ''app.bsky.embed.images''),
                        (''images'', JArray [image_embed blobResp width height])])])))"

definition record_url :: "env \<Rightarrow> string" where
  "record_url e = API_URL e @ ''/com.atproto.repo.createRecord''"

text \<open>
  The part of \<open>CreatePost\<close> from the request body on. A status other than 200 is an
  error (the error body is logged when it decodes); on 200 the response is decoded only to
  log the post details, and the function returns \<open>nil\<close> either way.
\<close>

definition submit_record ::
  "env \<Rightarrow> DIDResponse \<Rightarrow> (string \<times> json) list \<Rightarrow> event list \<times> error option" where
  "submit_record e token record =
     (let requestBody = JObject [(''collection'', JString ''app.bsky.feed.post''),
                                 (''repo'', JString (DID token)),
                                 (''record'', JObject record)]
      in case json_Marshal e requestBody of
           Inl err \<Rightarrow> ([], Some (MarshalFailed err))
         | Inr jsonBody \<Rightarrow>
             (case http_NewRequest e ''POST'' (record_url e) of
                Some err \<Rightarrow> ([NewRequest ''POST'' (record_url e)], Some (CreateRequestFailed err))
              | None \<Rightarrow>
                  (let req = \<lparr>Method = ''POST'', Url = record_url e,
                              Authorization = ''Bearer '' @ AccessJwt token,
                              ContentType = ''application/json'',
                              ReqBody = jsonBody, Timeout = None\<rparr>;
                       evs = [NewRequest ''POST'' (record_url e), Send req]
                   in case client_Do e req of
                        Inl err \<Rightarrow> (evs, Some (SendRequestFailed err))
                      | Inr resp \<Rightarrow>
                          (let evs2 = evs @ [Response (record_url e) (StatusCode resp)]
                           in if StatusCode resp \<noteq> 200 then
                                (case (case Body resp of Inl err \<Rightarrow> Inl err
                                       | Inr b \<Rightarrow> json_Unmarshal_map e b) of
                                   Inr errResp \<Rightarrow>
                                     (evs2 @ [Slog Error ''API error response'' [(''response'', AJson errResp)]],
                                      Some (UnexpectedStatus (StatusCode resp)))
                                 | Inl _ \<Rightarrow> (evs2, Some (UnexpectedStatus (StatusCode resp))))
                              else
                                (case (case Body resp of Inl err \<Rightarrow> Inl err
                                       | Inr b \<Rightarrow> json_Unmarshal_post e b) of
                                   Inr postResp \<Rightarrow>
                                     (evs2 @ [Slog Info ''Post created''
                                                [(''uri'', AString (URI postResp)),
                                                 (''cid'', AString (CID postResp))]],
                                      None)
                                 | Inl _ \<Rightarrow> (evs2, None))))))"

text \<open>
  \<open>CreatePost\<close> returns an \<open>error\<close> (\<open>None\<close> is \<open>nil\<close>), unless the timestamp
  panics first.
\<close>

definition CreatePost ::
  "env \<Rightarrow> DIDResponse \<Rightarrow> string \<Rightarrow> string \<Rightarrow> event list \<times> (abort + error option)" where
  "CreatePost e token content imagePath =
     (case getCurrentTime e of
        Inl p \<Rightarrow> ([], Inl p)
      | Inr createdAt \<Rightarrow>
          (let record = [(''$type'', JString ''app.bsky.feed.post''),
                         (''text'', JString content),
                         (''createdAt'', JString createdAt)]
           in if imagePath \<noteq> [] then
                (case attach_image e token imagePath of
                   (evs, Inl err) \<Rightarrow> (evs, Inr (Some err))
                 | (evs, Inr embedding) \<Rightarrow>
                     (let (evs', r) = submit_record e token (record @ embedding)
                      in (evs @ evs', Inr r)))
              else (let (evs', r) = submit_record e token record in (evs', Inr r))))"

subsection \<open>GetToken\<close>

text \<open>
  Modelled from the spec: \<open>bluesky.GetToken\<close>, whose file is not among the sources. The
  credential resolver reads identifier and secret from the environment; the session client
  sends a single request to the identity endpoint and returns the access token and the
  account identifier; any non-success status or malformed response is an authentication
  failure, and nothing is retried. \<open>create_session\<close> is the outcome of that exchange.
\<close>

definition GetToken :: "env \<Rightarrow> event list \<times> (error + DIDResponse)" where
  "GetToken e =
     (case credentials e of
        None \<Rightarrow> ([], Inl CredentialsMissing)
      | Some (identifier, secret) \<Rightarrow>
          (case create_session e identifier secret of
             Inl err \<Rightarrow> ([SessionRequest identifier secret], Inl (AuthenticationFailed err))
           | Inr token \<Rightarrow> ([SessionRequest identifier secret], Inr token)))"

subsection \<open>cmd/posts/create.go and cmd/root.go\<close>

text \<open>The flag variables \<open>text\<close>, \<open>hashtags\<close> and \<open>imageFile\<close> of package \<open>posts\<close>.\<close>

record flags =
  "text" :: string
  hashtags :: "string list"
  imageFile :: string

text \<open>
  The interactive form, shown when text and image are both empty. It writes the text and
  the image path into the flag variables; a non-empty hashtag input is split at commas and
  each part trimmed. A failure of the form logs and exits with status 1.
\<close>

definition prompt :: "env \<Rightarrow> flags \<Rightarrow> event list \<times> (abort + flags)" where
  "prompt e fl =
     (if text fl = [] \<and> imageFile fl = [] then
        (case form_Run e of
           Inl err \<Rightarrow> ([Slog Error ''Failed to get user input'' [(''error'', AError err)]], Inl (Exit 1))
         | Inr (t, hashtagInput, img) \<Rightarrow>
             ([], Inr \<lparr>text = t,
                       hashtags = (if hashtagInput \<noteq> [] then map (TrimSpace e) (Split hashtagInput (CHR '',''))
                                   else hashtags fl),
                       imageFile = img\<rparr>))
      else ([], Inr fl))"

text \<open>The \<open>Run\<close> function of the create command.\<close>

definition Run :: "env \<Rightarrow> flags \<Rightarrow> event list \<times> (abort + unit)" where
  "Run e fl0 =
     (case prompt e fl0 of
        (evs0, Inl a) \<Rightarrow> (evs0, Inl a)
      | (evs0, Inr fl) \<Rightarrow>
          (let content = compose_content (text fl) (hashtags fl)
           in case GetToken e of
                (evs1, Inl err) \<Rightarrow>
                  (evs0 @ evs1 @ [Slog Error ''Failed to get authentication token'' [(''error'', AError err)],
                                  Println ''Error: Failed to authenticate with Bluesky''],
                   Inr ())
              | (evs1, Inr token) \<Rightarrow>
                  (case CreatePost e token content (imageFile fl) of
                     (evs2, Inl a) \<Rightarrow> (evs0 @ evs1 @ evs2, Inl a)
                   | (evs2, Inr (Some err)) \<Rightarrow>
                       (evs0 @ evs1 @ evs2 @ [Slog Error ''Failed to create post'' [(''error'', AError err)],
                                              Println ''Error: Failed to create post''],
                        Inr ())
                   | (evs2, Inr None) \<Rightarrow>
                       (evs0 @ evs1 @ evs2 @ [Println ''Post created successfully!''], Inr ()))))"

text \<open>
  The \<open>Run\<close> function of the revision of \<open>create.go\<close> without the form. It refuses
  empty input before anything else; its own \<open>createPost\<close> (the same file, without image
  upload) is a parameter here.
\<close>

definition Run_without_form ::
  "(DIDResponse \<Rightarrow> string \<Rightarrow> string \<Rightarrow> event list \<times> error option) \<Rightarrow> env \<Rightarrow> flags
     \<Rightarrow> event list \<times> (abort + unit)" where
  "Run_without_form createPost e fl =
     (if text fl = [] \<and> imageFile fl = [] then
        ([Println ''Error: You must provide either text content or an image to post''], Inr ())
      else
        (let content = compose_content (text fl) (hashtags fl)
         in case GetToken e of
              (evs1, Inl err) \<Rightarrow>
                (evs1 @ [Slog Error ''Failed to get authentication token'' [(''error'', AError err)],
                         Println ''Error: Failed to authenticate with Bluesky''],
                 Inr ())
            | (evs1, Inr token) \<Rightarrow>
                (case createPost token content (imageFile fl) of
                   (evs2, Some err) \<Rightarrow>
                     (evs1 @ evs2 @ [Slog Error ''Failed to create post'' [(''error'', AError err)],
                                     Println ''Error: Failed to create post''],
                      Inr ())
                 | (evs2, None) \<Rightarrow>
                     (evs1 @ evs2 @ [Println ''Post created successfully!''], Inr ()))))"

text \<open>
  What cobra makes of the command line: a parsing failure (\<open>rootCmd.Execute\<close> returns an
  error), a command without a \<open>Run\<close> function of this repository (help, \<open>posts\<close> alone),
  or \<open>posts create\<close> with its flags. \<open>Run\<close> returns nothing to cobra, so only a parsing
  failure makes \<open>rootCmd.Execute\<close> return an error. The result of \<open>Execute\<close> is the exit
  status of the process: 1 from \<open>os.Exit(1)\<close>, 2 from the Go run time after a panic, 0 when
  \<open>main\<close> returns.
\<close>

datatype invocation = ParseFailure error | NoRun | PostsCreate flags

definition Execute :: "env \<Rightarrow> invocation \<Rightarrow> event list \<times> int" where
  "Execute e cmdline =
     (case cmdline of
        ParseFailure err \<Rightarrow> ([], 1)
      | NoRun \<Rightarrow> ([], 0)
      | PostsCreate fl \<Rightarrow>
          (case Run e fl of
             (evs, Inl (Exit n)) \<Rightarrow> (evs, n)
           | (evs, Inl (Panic m)) \<Rightarrow> (evs, 2)
           | (evs, Inr done) \<Rightarrow> (evs, 0)))"

subsection \<open>A concrete environment\<close>

text \<open>
  An environment in which every step succeeds: the clock reads
  2025-01-01T12:30:45.123456789Z, the credentials are set, every file exists and holds
  three bytes, and every request is answered with status 200 and a body that decodes.
  Single fields are changed where a property is evaluated on a failing step.
\<close>

definition token0 :: DIDResponse where
  "token0 = \<lparr>DID = ''did:plc:alice'', AccessJwt = ''jwt''\<rparr>"

definition blob0 :: UploadBlobResponse where
  "blob0 = \<lparr>Blob = \<lparr>Type = ''blob'', Ref = \<lparr>Link = ''bafy''\<rparr>,
                      MimeType = ''image/jpeg'', Size = 3\<rparr>\<rparr>"

definition post0 :: PostCreateResponse where
  "post0 = \<lparr>URI = ''at://did:plc:alice/app.bsky.feed.post/1'', CID = ''cid'',
            Record = \<lparr>RecType = ''app.bsky.feed.post'', RecText = [], CreatedAt = []\<rparr>\<rparr>"

definition env0 :: env where
  "env0 =
     \<lparr>now = \<lparr>Year = 2025, Month = 1, Day = 1, Hour = 12, Minute = 30, Second = 45,
              Nanosecond = 123456789\<rparr>,
      API_URL = ''https://bsky.social/xrpc'',
      credentials = Some (''alice'', ''secret''),
      create_session = (\<lambda>identifier secret. Inr token0),
      form_Run = Inr ([], [], []),
      os_Stat = (\<lambda>path. StatOk),
      os_ReadFile = (\<lambda>path. Inr ''img''),
      os_Open = (\<lambda>path. None),
      image_DecodeConfig = (\<lambda>path. Inr (4, 3)),
      http_NewRequest = (\<lambda>method url. None),
      client_Do = (\<lambda>req. Inr \<lparr>StatusCode = 200, Body = Inr ''{}''\<rparr>),
      json_Marshal = (\<lambda>v. Inr ''{}''),
      json_Unmarshal_map = (\<lambda>b. Inr []),
      json_Unmarshal_blob = (\<lambda>b. Inr blob0),
      json_Unmarshal_post = (\<lambda>b. Inr post0),
      unicode_ToLower = (\<lambda>s. s),
      unicode_TrimSpace = (\<lambda>s. s)\<rparr>"

text \<open>Every file holds 1,000,001 bytes.\<close>

definition env_oversize :: env where
  "env_oversize = env0\<lparr>os_ReadFile := (\<lambda>path. Inr (replicate 1000001 (CHR ''x'')))\<rparr>"

text \<open>The body of the upload response decodes to a blob without a link.\<close>

definition blob_no_link :: UploadBlobResponse where
  "blob_no_link = \<lparr>Blob = \<lparr>Type = [], Ref = \<lparr>Link = []\<rparr>, MimeType = [], Size = 0\<rparr>\<rparr>"

definition env_no_link :: env where
  "env_no_link = env0\<lparr>json_Unmarshal_blob := (\<lambda>b. Inr blob_no_link)\<rparr>"

text \<open>The upload is answered with status 200, the record creation with status 500.\<close>

definition env_create_fails :: env where
  "env_create_fails =
     env0\<lparr>client_Do := (\<lambda>req. if Url req = upload_url env0
                                then Inr \<lparr>StatusCode = 200, Body = Inr ''{}''\<rparr>
                                else Inr \<lparr>StatusCode = 500, Body = Inr ''{}''\<rparr>)\<rparr>"

text \<open>The body of the record-creation response does not decode.\<close>

definition env_undecodable_post :: env where
  "env_undecodable_post =
     env0\<lparr>json_Unmarshal_post := (\<lambda>b. Inl (External ''unexpected end of JSON input''))\<rparr>"

text \<open>The body of the upload response does not decode.\<close>

definition env_undecodable_blob :: env where
  "env_undecodable_blob =
     env0\<lparr>json_Unmarshal_blob := (\<lambda>b. Inl (External ''unexpected end of JSON input''))\<rparr>"

text \<open>The clock reads a whole second, 2025-01-01T12:30:45.000000000Z.\<close>

definition env_whole_second :: env where
  "env_whole_second =
     env0\<lparr>now := \<lparr>Year = 2025, Month = 1, Day = 1, Hour = 12, Minute = 30, Second = 45,
                     Nanosecond = 0\<rparr>\<rparr>"

text \<open>The clock reads a whole number of hundredths, 2025-01-01T12:30:45.120000000Z.\<close>

definition env_hundredths :: env where
  "env_hundredths =
     env0\<lparr>now := \<lparr>Year = 2025, Month = 1, Day = 1, Hour = 12, Minute = 30, Second = 45,
                     Nanosecond = 120000000\<rparr>\<rparr>"

section \<open>Properties\<close>

lemma compose_content_concat:
  "compose_content content tags = content @ concat (map (\<lambda>tag. '' #'' @ tag) tags)"
  by (induction tags arbitrary: content) simp_all

text \<open>
  C2: for every text and every hashtag list, the composed content is the text followed by,
  for each hashtag in list order, a space, a hash sign and the hashtag; for the text
  "Hello" and the hashtags a, b it is "Hello #a #b".
\<close>

theorem compose_content_spec:
  "compose_content txt tags = txt @ concat (map (\<lambda>tag. [CHR '' '', CHR ''#''] @ tag) tags)
   \<and> compose_content ''Hello'' [''a'', ''b''] = ''Hello #a #b''"
  by (simp add: compose_content_concat)

text \<open>
  C3: for every image file whose content is larger than 1,000,000 bytes, uploadImage
  returns the error that reports the size, and the run has no effect before it: no request
  is constructed or sent.
\<close>

theorem uploadImage_oversize:
  assumes "os_Stat e imagePath = StatOk"
    and "os_ReadFile e imagePath = Inr imgData"
    and "length imgData > 1000000"
  shows "uploadImage e token imagePath = ([], Inl (ImageTooLarge (length imgData)))"
  using assms by (simp add: uploadImage_def)

theorem uploadImage_oversize_witness:
  "os_Stat env_oversize ''big.png'' = StatOk
   \<and> os_ReadFile env_oversize ''big.png'' = Inr (replicate 1000001 (CHR ''x''))
   \<and> uploadImage env_oversize token0 ''big.png'' = ([], Inl (ImageTooLarge 1000001))"
  using uploadImage_oversize [of env_oversize "''big.png''" "replicate 1000001 (CHR ''x'')" token0]
  by (simp add: env_oversize_def env0_def)

subsection \<open>What uploadImage sends\<close>

lemma upload_result_events:
  "upload_result e imgData st body = (evs, r) \<Longrightarrow> ev \<in> set evs \<Longrightarrow> \<exists>l m as. ev = Slog l m as"
  by (auto simp add: upload_result_def split: sum.splits option.splits json.splits if_splits)

lemma upload_send_Send:
  assumes "http_NewRequest e ''POST'' (upload_url e) = None"
  shows "Send (upload_request e token imgData mimeType) \<in> set (fst (upload_send e token imgData mimeType))"
  using assms by (simp add: upload_send_def Let_def split: sum.splits prod.splits)

lemma upload_send_Send_only:
  assumes "Send req \<in> set (fst (upload_send e token imgData mimeType))"
  shows "req = upload_request e token imgData mimeType"
  using assms
  by (auto simp add: upload_send_def Let_def split: sum.splits prod.splits option.splits
      dest: upload_result_events)

lemma uploadImage_proceeds:
  assumes "os_Stat e imagePath = StatOk"
    and "os_ReadFile e imagePath = Inr imgData"
    and "length imgData \<le> 1000000"
  shows "uploadImage e token imagePath =
      (Slog Info ''Uploading image''
         [(''path'', AString imagePath), (''size'', AInt (int (length imgData))),
          (''mimeType'', AString (resolved_mimeType e imagePath))]
       # fst (upload_send e token imgData (resolved_mimeType e imagePath)),
       snd (upload_send e token imgData (resolved_mimeType e imagePath)))"
  using assms by (simp add: uploadImage_def Let_def split: prod.splits)

lemma uploadImage_Send_only:
  assumes "Send req \<in> set (fst (uploadImage e token imagePath))"
  shows "\<exists>imgData. os_ReadFile e imagePath = Inr imgData
            \<and> req = upload_request e token imgData (resolved_mimeType e imagePath)"
proof (cases "os_Stat e imagePath")
  case StatOk
  show ?thesis
  proof (cases "os_ReadFile e imagePath")
    case (Inl err)
    with StatOk assms show ?thesis by (simp add: uploadImage_def)
  next
    case (Inr imgData)
    show ?thesis
    proof (cases "length imgData \<le> 1000000")
      case True
      from assms uploadImage_proceeds [OF StatOk Inr True, of token]
      have "Send req \<in> set (fst (upload_send e token imgData (resolved_mimeType e imagePath)))"
        by simp
      then show ?thesis using Inr by (simp add: upload_send_Send_only)
    next
      case False
      with StatOk Inr assms show ?thesis by (simp add: uploadImage_def)
    qed
  qed
qed (use assms in \<open>simp_all add: uploadImage_def\<close>)

lemma getMimeType_unknown:
  assumes "ToLower e (Ext filename) \<notin> {''.jpg'', ''.jpeg'', ''.png'', ''.gif'', ''.webp''}"
  shows "getMimeType e filename = []"
  using assms by (simp add: getMimeType_def Let_def)

text \<open>
  C9: for every file whose extension is outside the fixed table, getMimeType returns the
  empty string and uploadImage sends the upload request with Content-Type exactly
  image/jpeg (the file being present and within the size limit, and the request
  constructed): that request is sent, and no request with another content type is.
\<close>

theorem uploadImage_default_content_type:
  assumes "ToLower e (Ext imagePath) \<notin> {''.jpg'', ''.jpeg'', ''.png'', ''.gif'', ''.webp''}"
    and "os_Stat e imagePath = StatOk"
    and "os_ReadFile e imagePath = Inr imgData"
    and "length imgData \<le> 1000000"
    and "http_NewRequest e ''POST'' (upload_url e) = None"
  shows "getMimeType e imagePath = []
     \<and> Send (upload_request e token imgData ''image/jpeg'') \<in> set (fst (uploadImage e token imagePath))
     \<and> (\<forall>req. Send req \<in> set (fst (uploadImage e token imagePath)) \<longrightarrow> ContentType req = ''image/jpeg'')"
proof -
  have m: "getMimeType e imagePath = []"
    using assms(1) by (rule getMimeType_unknown)
  then have r: "resolved_mimeType e imagePath = ''image/jpeg''"
    by (simp add: resolved_mimeType_def)
  have s: "Send (upload_request e token imgData ''image/jpeg'') \<in> set (fst (uploadImage e token imagePath))"
    using uploadImage_proceeds [OF assms(2-4), of token] upload_send_Send [OF assms(5), of token imgData "''image/jpeg''"] r
    by simp
  have "ContentType req = ''image/jpeg''" if "Send req \<in> set (fst (uploadImage e token imagePath))" for req
    using uploadImage_Send_only [OF that] r by (auto simp add: upload_request_def)
  with m s show ?thesis by blast
qed

theorem uploadImage_default_content_type_witness:
  "getMimeType env0 ''photo.bmp'' = []
     \<and> Send \<lparr>Method = ''POST'', Url = ''https://bsky.social/xrpc/com.atproto.repo.uploadBlob'',
              Authorization = ''Bearer jwt'', ContentType = ''image/jpeg'', ReqBody = ''img'',
              Timeout = Some 30\<rparr> \<in> set (fst (uploadImage env0 token0 ''photo.bmp''))"
  using uploadImage_default_content_type [of env0 "''photo.bmp''" "''img''" token0]
  by (simp add: env0_def token0_def ToLower_def Ext_def IsPathSeparator_def is_ascii_def ascii_lower_def
      upload_url_def upload_request_def)

subsection \<open>What uploadImage returns\<close>

lemma upload_result_Inr:
  assumes "upload_result e imgData st body = (evs, Inr r)"
  shows "st = 200 \<and> json_Unmarshal_blob e body = Inr r \<and> Link (Ref (Blob r)) \<noteq> []"
  using assms
  by (auto simp add: upload_result_def split: sum.splits option.splits json.splits if_splits)

lemma upload_send_Inr:
  assumes "snd (upload_send e token imgData mimeType) = Inr r"
  shows "Link (Ref (Blob r)) \<noteq> []"
  using assms
  by (auto simp add: upload_send_def Let_def split: sum.splits prod.splits option.splits
      dest: upload_result_Inr)

lemma uploadImage_Inr:
  assumes "uploadImage e token imagePath = (evs, Inr r)"
  shows "Link (Ref (Blob r)) \<noteq> []"
proof (cases "os_Stat e imagePath")
  case StatOk
  show ?thesis
  proof (cases "os_ReadFile e imagePath")
    case (Inl err)
    with StatOk assms show ?thesis by (simp add: uploadImage_def)
  next
    case (Inr imgData)
    show ?thesis
    proof (cases "length imgData \<le> 1000000")
      case True
      from assms uploadImage_proceeds [OF StatOk Inr True, of token]
      have "snd (upload_send e token imgData (resolved_mimeType e imagePath)) = Inr r"
        by simp
      then show ?thesis by (rule upload_send_Inr)
    next
      case False
      with StatOk Inr assms show ?thesis by (simp add: uploadImage_def)
    qed
  qed
qed (use assms in \<open>simp_all add: uploadImage_def\<close>)

lemma upload_send_answered:
  assumes "http_NewRequest e ''POST'' (upload_url e) = None"
    and "client_Do e (upload_request e token imgData mimeType) = Inr resp"
    and "Body resp = Inr body"
  shows "snd (upload_send e token imgData mimeType) = snd (upload_result e imgData (StatusCode resp) body)"
  using assms by (simp add: upload_send_def Let_def split: prod.splits)

text \<open>
  C10: for every upload answered with status 200 and a body that decodes to an empty blob
  reference link, uploadImage returns the missing-link error; and whenever uploadImage
  returns an UploadBlobResponse, its Blob.Ref.Link is not empty.
\<close>

theorem uploadImage_blob_link:
  "(os_Stat e imagePath = StatOk \<and> os_ReadFile e imagePath = Inr imgData \<and> length imgData \<le> 1000000
      \<and> http_NewRequest e ''POST'' (upload_url e) = None
      \<and> client_Do e (upload_request e token imgData (resolved_mimeType e imagePath)) = Inr resp
      \<and> StatusCode resp = 200 \<and> Body resp = Inr body
      \<and> json_Unmarshal_blob e body = Inr blobResp \<and> Link (Ref (Blob blobResp)) = []
    \<longrightarrow> snd (uploadImage e token imagePath) = Inl (MissingBlobLink body))
   \<and> (\<forall>evs r. uploadImage e token imagePath = (evs, Inr r) \<longrightarrow> Link (Ref (Blob r)) \<noteq> [])"
proof (intro conjI impI allI)
  assume a: "os_Stat e imagePath = StatOk \<and> os_ReadFile e imagePath = Inr imgData \<and> length imgData \<le> 1000000
      \<and> http_NewRequest e ''POST'' (upload_url e) = None
      \<and> client_Do e (upload_request e token imgData (resolved_mimeType e imagePath)) = Inr resp
      \<and> StatusCode resp = 200 \<and> Body resp = Inr body
      \<and> json_Unmarshal_blob e body = Inr blobResp \<and> Link (Ref (Blob blobResp)) = []"
  then have "snd (uploadImage e token imagePath)
      = snd (upload_result e imgData 200 body)"
    using uploadImage_proceeds [of e imagePath imgData token]
      upload_send_answered [of e token imgData "resolved_mimeType e imagePath" resp body]
    by simp
  with a show "snd (uploadImage e token imagePath) = Inl (MissingBlobLink body)"
    by (simp add: upload_result_def)
next
  fix evs r
  assume "uploadImage e token imagePath = (evs, Inr r)"
  then show "Link (Ref (Blob r)) \<noteq> []" by (rule uploadImage_Inr)
qed

theorem uploadImage_blob_link_witness:
  "json_Unmarshal_blob env_no_link ''{}'' = Inr blob_no_link \<and> Link (Ref (Blob blob_no_link)) = []
   \<and> snd (uploadImage env_no_link token0 ''a.png'') = Inl (MissingBlobLink ''{}'')
   \<and> snd (uploadImage env0 token0 ''a.png'') = Inr blob0 \<and> Link (Ref (Blob blob0)) \<noteq> []"
proof -
  have h: "os_Stat env_no_link ''a.png'' = StatOk \<and> os_ReadFile env_no_link ''a.png'' = Inr ''img''
      \<and> length ''img'' \<le> 1000000
      \<and> http_NewRequest env_no_link ''POST'' (upload_url env_no_link) = None
      \<and> client_Do env_no_link (upload_request env_no_link token0 ''img'' (resolved_mimeType env_no_link ''a.png''))
          = Inr \<lparr>StatusCode = 200, Body = Inr ''{}''\<rparr>
      \<and> StatusCode \<lparr>StatusCode = 200, Body = Inr ''{}''\<rparr> = 200
      \<and> Body \<lparr>StatusCode = 200, Body = Inr ''{}''\<rparr> = Inr ''{}''
      \<and> json_Unmarshal_blob env_no_link ''{}'' = Inr blob_no_link \<and> Link (Ref (Blob blob_no_link)) = []"
    by (simp add: env_no_link_def env0_def blob_no_link_def)
  have 1: "snd (uploadImage env_no_link token0 ''a.png'') = Inl (MissingBlobLink ''{}'')"
    using uploadImage_blob_link [of env_no_link "''a.png''" "''img''" token0
        "\<lparr>StatusCode = 200, Body = Inr ''{}''\<rparr>" "''{}''" blob_no_link, THEN conjunct1] h
    by blast
  have 2: "uploadImage env0 token0 ''a.png'' = (fst (uploadImage env0 token0 ''a.png''), Inr blob0)"
    by (simp add: uploadImage_def upload_send_def upload_result_def env0_def blob0_def Let_def)
  have 3: "Link (Ref (Blob blob0)) \<noteq> []"
    using uploadImage_blob_link [of env0 "''a.png''" _ token0, THEN conjunct2] 2
    by blast
  from h 1 2 3 show ?thesis by (metis snd_conv)
qed

subsection \<open>The extension table\<close>

lemma Ext_loop_suffix:
  assumes "\<forall>c\<in>set x. c \<noteq> CHR ''.'' \<and> c \<noteq> CHR ''/''"
    and "k \<le> length x"
  shows "Ext_loop (stem @ ''.'' @ x) (Suc (length stem) + k) = ''.'' @ x"
  using assms(2)
proof (induction k)
  case 0
  show ?case by (simp add: IsPathSeparator_def nth_append)
next
  case (Suc k)
  then have k: "k < length x" by simp
  then have "(stem @ ''.'' @ x) ! (Suc (length stem) + k) = x ! k"
    by (simp add: nth_append)
  moreover have "x ! k \<in> set x" using k by simp
  ultimately have "(stem @ ''.'' @ x) ! (Suc (length stem) + k) \<noteq> CHR ''.''"
    and "(stem @ ''.'' @ x) ! (Suc (length stem) + k) \<noteq> CHR ''/''"
    using assms(1) by auto
  then show ?case using Suc by (simp add: IsPathSeparator_def)
qed

lemma Ext_suffix:
  assumes "\<forall>c\<in>set x. c \<noteq> CHR ''.'' \<and> c \<noteq> CHR ''/''"
  shows "Ext (stem @ ''.'' @ x) = ''.'' @ x"
  using Ext_loop_suffix [OF assms, of "length x" stem] by (simp add: Ext_def)

lemma ascii_lower_is_ascii: "is_ascii (ascii_lower c) \<Longrightarrow> is_ascii c"
  by (simp add: ascii_lower_def is_ascii_def split: if_splits)

lemma ascii_lower_dot: "ascii_lower (CHR ''.'') = CHR ''.''"
  and ascii_lower_slash: "ascii_lower (CHR ''/'') = CHR ''/''"
  by (simp_all add: ascii_lower_def)

lemma getMimeType_folded:
  assumes "map ascii_lower x = y"
    and "list_all is_ascii y"
    and "CHR ''.'' \<notin> set y" and "CHR ''/'' \<notin> set y"
  shows "ToLower e (Ext (stem @ ''.'' @ x)) = ''.'' @ y"
proof -
  have "\<forall>c\<in>set x. c \<noteq> CHR ''.'' \<and> c \<noteq> CHR ''/''"
  proof
    fix c assume "c \<in> set x"
    then have "ascii_lower c \<in> set y" using assms(1) by auto
    with assms(3,4) show "c \<noteq> CHR ''.'' \<and> c \<noteq> CHR ''/''"
      using ascii_lower_dot ascii_lower_slash by metis
  qed
  then have ext: "Ext (stem @ ''.'' @ x) = ''.'' @ x" by (rule Ext_suffix)
  have "list_all is_ascii x"
    using assms(1,2) by (auto simp add: list_all_iff intro: ascii_lower_is_ascii)
  then have "list_all is_ascii (''.'' @ x)" by (simp add: is_ascii_def)
  then show ?thesis using ext assms(1) by (simp add: ToLower_def ascii_lower_dot)
qed

lemma getMimeType_jpg: "map ascii_lower x = ''jpg'' \<Longrightarrow> getMimeType e (stem @ ''.'' @ x) = ''image/jpeg''"
  using getMimeType_folded [of x "''jpg''" e stem] by (simp add: getMimeType_def is_ascii_def)

lemma getMimeType_jpeg: "map ascii_lower x = ''jpeg'' \<Longrightarrow> getMimeType e (stem @ ''.'' @ x) = ''image/jpeg''"
  using getMimeType_folded [of x "''jpeg''" e stem] by (simp add: getMimeType_def is_ascii_def)

lemma getMimeType_png: "map ascii_lower x = ''png'' \<Longrightarrow> getMimeType e (stem @ ''.'' @ x) = ''image/png''"
  using getMimeType_folded [of x "''png''" e stem] by (simp add: getMimeType_def is_ascii_def)

lemma getMimeType_gif: "map ascii_lower x = ''gif'' \<Longrightarrow> getMimeType e (stem @ ''.'' @ x) = ''image/gif''"
  using getMimeType_folded [of x "''gif''" e stem] by (simp add: getMimeType_def is_ascii_def)

lemma getMimeType_webp: "map ascii_lower x = ''webp'' \<Longrightarrow> getMimeType e (stem @ ''.'' @ x) = ''image/webp''"
  using getMimeType_folded [of x "''webp''" e stem] by (simp add: getMimeType_def is_ascii_def)

lemma uploadImage_succeeds:
  assumes "os_Stat e imagePath = StatOk"
    and "os_ReadFile e imagePath = Inr imgData"
    and "length imgData \<le> 1000000"
    and "http_NewRequest e ''POST'' (upload_url e) = None"
    and "client_Do e (upload_request e token imgData (resolved_mimeType e imagePath)) = Inr resp"
    and "StatusCode resp = 200"
    and "Body resp = Inr body"
    and "json_Unmarshal_blob e body = Inr blobResp"
    and "Link (Ref (Blob blobResp)) \<noteq> []"
  shows "snd (uploadImage e token imagePath) = Inr blobResp"
proof -
  have "snd (uploadImage e token imagePath) = snd (upload_result e imgData 200 body)"
    using uploadImage_proceeds [OF assms(1-3), of token] upload_send_answered [OF assms(4,5,7)] assms(6)
    by simp
  then show ?thesis using assms(8,9) by (simp add: upload_result_def)
qed

text \<open>
  C5: for every file name whose extension is, up to the case of its letters, jpg or jpeg,
  png, gif or webp, getMimeType returns image/jpeg, image/png, image/gif or image/webp;
  and a file name with any other extension does not make uploadImage fail: it gets the
  empty MIME type, the upload is sent with the default type, and when every other step
  succeeds uploadImage returns the blob reference.
\<close>

theorem getMimeType_table:
  "(map ascii_lower x = ''jpg'' \<or> map ascii_lower x = ''jpeg''
      \<longrightarrow> getMimeType e (stem @ ''.'' @ x) = ''image/jpeg'')
   \<and> (map ascii_lower x = ''png'' \<longrightarrow> getMimeType e (stem @ ''.'' @ x) = ''image/png'')
   \<and> (map ascii_lower x = ''gif'' \<longrightarrow> getMimeType e (stem @ ''.'' @ x) = ''image/gif'')
   \<and> (map ascii_lower x = ''webp'' \<longrightarrow> getMimeType e (stem @ ''.'' @ x) = ''image/webp'')
   \<and> (ToLower e (Ext imagePath) \<notin> {''.jpg'', ''.jpeg'', ''.png'', ''.gif'', ''.webp''}
        \<longrightarrow> getMimeType e imagePath = [] \<and> resolved_mimeType e imagePath = ''image/jpeg'')
   \<and> (ToLower e (Ext imagePath) \<notin> {''.jpg'', ''.jpeg'', ''.png'', ''.gif'', ''.webp''}
        \<and> os_Stat e imagePath = StatOk \<and> os_ReadFile e imagePath = Inr imgData
        \<and> length imgData \<le> 1000000
        \<and> http_NewRequest e ''POST'' (upload_url e) = None
        \<and> client_Do e (upload_request e token imgData ''image/jpeg'') = Inr resp
        \<and> StatusCode resp = 200 \<and> Body resp = Inr body
        \<and> json_Unmarshal_blob e body = Inr blobResp \<and> Link (Ref (Blob blobResp)) \<noteq> []
      \<longrightarrow> snd (uploadImage e token imagePath) = Inr blobResp)"
proof -
  have unknown: "getMimeType e imagePath = [] \<and> resolved_mimeType e imagePath = ''image/jpeg''"
    if "ToLower e (Ext imagePath) \<notin> {''.jpg'', ''.jpeg'', ''.png'', ''.gif'', ''.webp''}"
    using getMimeType_unknown [OF that] by (simp add: resolved_mimeType_def)
  have upload: "snd (uploadImage e token imagePath) = Inr blobResp"
    if "ToLower e (Ext imagePath) \<notin> {''.jpg'', ''.jpeg'', ''.png'', ''.gif'', ''.webp''}
        \<and> os_Stat e imagePath = StatOk \<and> os_ReadFile e imagePath = Inr imgData
        \<and> length imgData \<le> 1000000
        \<and> http_NewRequest e ''POST'' (upload_url e) = None
        \<and> client_Do e (upload_request e token imgData ''image/jpeg'') = Inr resp
        \<and> StatusCode resp = 200 \<and> Body resp = Inr body
        \<and> json_Unmarshal_blob e body = Inr blobResp \<and> Link (Ref (Blob blobResp)) \<noteq> []"
    using that unknown uploadImage_succeeds [of e imagePath imgData token resp body blobResp]
    by simp
  have jpeg: "getMimeType e (stem @ ''.'' @ x) = ''image/jpeg''"
    if "map ascii_lower x = ''jpg'' \<or> map ascii_lower x = ''jpeg''"
    using that getMimeType_jpg [of x e stem] getMimeType_jpeg [of x e stem] by (elim disjE) simp_all
  show ?thesis
    apply (intro conjI impI)
    subgoal by (rule jpeg)
    subgoal by (rule getMimeType_png)
    subgoal by (rule getMimeType_gif)
    subgoal by (rule getMimeType_webp)
    subgoal using unknown by simp
    subgoal using unknown by simp
    subgoal by (rule upload)
    done
qed

theorem getMimeType_table_witness:
  "getMimeType env0 ''pics/v1.2/Photo.JPG'' = ''image/jpeg''
   \<and> getMimeType env0 ''photo.Jpeg'' = ''image/jpeg''
   \<and> getMimeType env0 ''photo.PNG'' = ''image/png''
   \<and> getMimeType env0 ''photo.Gif'' = ''image/gif''
   \<and> getMimeType env0 ''photo.webP'' = ''image/webp''
   \<and> getMimeType env0 ''photo.bmp'' = []
   \<and> snd (uploadImage env0 token0 ''photo.bmp'') = Inr blob0"
proof -
  have l: "map ascii_lower ''JPG'' = ''jpg''" "map ascii_lower ''Jpeg'' = ''jpeg''"
    "map ascii_lower ''PNG'' = ''png''" "map ascii_lower ''Gif'' = ''gif''"
    "map ascii_lower ''webP'' = ''webp''"
    by code_simp+
  have "getMimeType env0 (''pics/v1.2/Photo'' @ ''.'' @ ''JPG'') = ''image/jpeg''"
    using getMimeType_table [of "''JPG''" env0 "''pics/v1.2/Photo''", THEN conjunct1] l(1) by simp
  moreover have "getMimeType env0 (''photo'' @ ''.'' @ ''Jpeg'') = ''image/jpeg''"
    using getMimeType_table [of "''Jpeg''" env0 "''photo''", THEN conjunct1] l(2) by simp
  moreover have "getMimeType env0 (''photo'' @ ''.'' @ ''PNG'') = ''image/png''"
    using getMimeType_table [of "''PNG''" env0 "''photo''", THEN conjunct2, THEN conjunct1] l(3) by simp
  moreover have "getMimeType env0 (''photo'' @ ''.'' @ ''Gif'') = ''image/gif''"
    using getMimeType_table [of "''Gif''" env0 "''photo''", THEN conjunct2, THEN conjunct2, THEN conjunct1] l(4) by simp
  moreover have "getMimeType env0 (''photo'' @ ''.'' @ ''webP'') = ''image/webp''"
    using getMimeType_table [of "''webP''" env0 "''photo''", THEN conjunct2, THEN conjunct2, THEN conjunct2, THEN conjunct1] l(5) by simp
  moreover have "getMimeType env0 ''photo.bmp'' = [] \<and> snd (uploadImage env0 token0 ''photo.bmp'') = Inr blob0"
  proof -
    have x: "ToLower env0 (Ext ''photo.bmp'') = ''.bmp''"
      by (simp add: ToLower_def Ext_def IsPathSeparator_def is_ascii_def ascii_lower_def)
    have "ToLower env0 (Ext ''photo.bmp'') \<notin> {''.jpg'', ''.jpeg'', ''.png'', ''.gif'', ''.webp''}"
      unfolding x by simp
    moreover have "os_Stat env0 ''photo.bmp'' = StatOk" "os_ReadFile env0 ''photo.bmp'' = Inr ''img''"
      "length ''img'' \<le> 1000000" "http_NewRequest env0 ''POST'' (upload_url env0) = None"
      "client_Do env0 (upload_request env0 token0 ''img'' ''image/jpeg'') = Inr \<lparr>StatusCode = 200, Body = Inr ''{}''\<rparr>"
      "StatusCode \<lparr>StatusCode = 200, Body = Inr ''{}''\<rparr> = 200"
      "Body \<lparr>StatusCode = 200, Body = Inr ''{}''\<rparr> = Inr ''{}''"
      "json_Unmarshal_blob env0 ''{}'' = Inr blob0" "Link (Ref (Blob blob0)) \<noteq> []"
      by (simp_all add: env0_def blob0_def)
    ultimately show ?thesis
      using getMimeType_table [of _ env0 _ "''photo.bmp''" "''img''" token0
        "\<lparr>StatusCode = 200, Body = Inr ''{}''\<rparr>" "''{}''" blob0,
        THEN conjunct2, THEN conjunct2, THEN conjunct2, THEN conjunct2]
      by simp
  qed
  ultimately show ?thesis by simp
qed

subsection \<open>Responses and reports\<close>

lemma url_distinct: "upload_url e \<noteq> record_url e"
  by (simp add: upload_url_def record_url_def)

lemma submit_record_response:
  assumes "Response u st \<in> set (fst (submit_record e token record))"
  shows "u = record_url e \<and> (if st = 200 then snd (submit_record e token record) = None
                               else snd (submit_record e token record) = Some (UnexpectedStatus st))"
  using assms
  by (auto simp add: submit_record_def Let_def split: sum.splits option.splits if_splits)

lemma submit_record_events:
  assumes "ev \<in> set (fst (submit_record e token record))"
  shows "\<not> (\<exists>s. ev = Println s)"
  using assms
  by (auto simp add: submit_record_def Let_def split: sum.splits option.splits if_splits)

lemma upload_send_events:
  assumes "ev \<in> set (fst (upload_send e token imgData mimeType))"
  shows "(\<forall>s. ev \<noteq> Println s) \<and> (\<forall>u st. ev = Response u st \<longrightarrow> u = upload_url e)"
  using assms
  by (auto simp add: upload_send_def Let_def split: sum.splits prod.splits option.splits
      dest: upload_result_events)

lemma uploadImage_events:
  assumes "ev \<in> set (fst (uploadImage e token imagePath))"
  shows "(\<forall>s. ev \<noteq> Println s) \<and> (\<forall>u st. ev = Response u st \<longrightarrow> u = upload_url e)"
proof (cases "os_Stat e imagePath")
  case StatOk
  show ?thesis
  proof (cases "os_ReadFile e imagePath")
    case (Inl err)
    with StatOk assms show ?thesis by (simp add: uploadImage_def)
  next
    case (Inr imgData)
    show ?thesis
    proof (cases "length imgData \<le> 1000000")
      case True
      from assms uploadImage_proceeds [OF StatOk Inr True, of token]
      have "(\<exists>as. ev = Slog Info ''Uploading image'' as)
          \<or> ev \<in> set (fst (upload_send e token imgData (resolved_mimeType e imagePath)))"
        by auto
      then show ?thesis using upload_send_events by blast
    next
      case False
      with StatOk Inr assms show ?thesis by (simp add: uploadImage_def)
    qed
  qed
qed (use assms in \<open>simp_all add: uploadImage_def\<close>)

lemma attach_image_events:
  assumes "ev \<in> set (fst (attach_image e token imagePath))"
  shows "ev \<noteq> Println ''Post created successfully!''
     \<and> (\<forall>u st. ev = Response u st \<longrightarrow> u = upload_url e)"
proof -
  obtain evs r where u: "uploadImage e token imagePath = (evs, r)"
    by (cases "uploadImage e token imagePath")
  have p: "(\<forall>s. x \<noteq> Println s) \<and> (\<forall>u st. x = Response u st \<longrightarrow> u = upload_url e)" if "x \<in> set evs" for x
    using uploadImage_events [of x e token imagePath] u that by simp
  show ?thesis
    using assms u p
    by (auto simp add: attach_image_def getImageDimensions_def Let_def
        split: sum.splits option.splits prod.splits)
qed

lemma CreatePost_response:
  assumes "Response (record_url e) st \<in> set (fst (CreatePost e token content imagePath))"
  shows "snd (CreatePost e token content imagePath)
      = Inr (if st = 200 then None else Some (UnexpectedStatus st))"
proof (cases "getCurrentTime e")
  case (Inl p)
  with assms show ?thesis by (simp add: CreatePost_def)
next
  case (Inr createdAt)
  let ?rcd = "[(''$type'', JString ''app.bsky.feed.post''), (''text'', JString content),
                  (''createdAt'', JString createdAt)]"
  show ?thesis
  proof (cases "imagePath = []")
    case True
    with Inr assms have "Response (record_url e) st \<in> set (fst (submit_record e token ?rcd))"
      by (simp add: CreatePost_def Let_def split_beta)
    from submit_record_response [OF this] True Inr show ?thesis
      by (simp add: CreatePost_def Let_def split_beta split: if_splits)
  next
    case False
    obtain evs r where a: "attach_image e token imagePath = (evs, r)"
      by (cases "attach_image e token imagePath")
    have n: "Response (record_url e) st \<notin> set evs"
      using attach_image_events [of "Response (record_url e) st" e token imagePath] a url_distinct [of e]
      by auto
    show ?thesis
    proof (cases r)
      case (Inl err)
      with False Inr a n assms show ?thesis by (simp add: CreatePost_def)
    next
      case (Inr embedding)
      with False \<open>getCurrentTime e = Inr createdAt\<close> a n assms
      have "Response (record_url e) st \<in> set (fst (submit_record e token (?rcd @ embedding)))"
        by (simp add: CreatePost_def Let_def split_beta)
      from submit_record_response [OF this] False \<open>getCurrentTime e = Inr createdAt\<close> a Inr show ?thesis
        by (simp add: CreatePost_def Let_def split_beta split: if_splits)
    qed
  qed
qed

lemma CreatePost_no_success_message:
  "Println ''Post created successfully!'' \<notin> set (fst (CreatePost e token content imagePath))"
proof -
  have s: "Println ''Post created successfully!'' \<notin> set (fst (submit_record e token rcd))" for rcd
    using submit_record_events [of "Println ''Post created successfully!''" e token rcd] by blast
  obtain evs r where a: "attach_image e token imagePath = (evs, r)"
    by (cases "attach_image e token imagePath")
  have n: "Println ''Post created successfully!'' \<notin> set evs"
    using attach_image_events [of "Println ''Post created successfully!''" e token imagePath] a by auto
  show ?thesis
    using s a n
    by (auto simp add: CreatePost_def Let_def split_beta split: sum.splits)
qed

lemma prompt_events:
  assumes "ev \<in> set (fst (prompt e fl))"
  shows "\<exists>as. ev = Slog Error ''Failed to get user input'' as"
  using assms by (auto simp add: prompt_def split: if_splits sum.splits prod.splits)

lemma GetToken_events:
  assumes "ev \<in> set (fst (GetToken e))"
  shows "\<exists>i s. ev = SessionRequest i s"
  using assms by (auto simp add: GetToken_def split: option.splits sum.splits prod.splits)

text \<open>The four ways a run of the create command ends.\<close>

lemma Run_cases:
  obtains
    (prompt_failed) evs0 a where "prompt e fl0 = (evs0, Inl a)" "Run e fl0 = (evs0, Inl a)"
  | (auth_failed) evs0 fl evs1 err where "prompt e fl0 = (evs0, Inr fl)" "GetToken e = (evs1, Inl err)"
      "Run e fl0 = (evs0 @ evs1 @ [Slog Error ''Failed to get authentication token'' [(''error'', AError err)],
                                   Println ''Error: Failed to authenticate with Bluesky''], Inr ())"
  | (crashed) evs0 fl evs1 token evs2 a where "prompt e fl0 = (evs0, Inr fl)" "GetToken e = (evs1, Inr token)"
      "CreatePost e token (compose_content (text fl) (hashtags fl)) (imageFile fl) = (evs2, Inl a)"
      "Run e fl0 = (evs0 @ evs1 @ evs2, Inl a)"
  | (post_failed) evs0 fl evs1 token evs2 err where "prompt e fl0 = (evs0, Inr fl)" "GetToken e = (evs1, Inr token)"
      "CreatePost e token (compose_content (text fl) (hashtags fl)) (imageFile fl) = (evs2, Inr (Some err))"
      "Run e fl0 = (evs0 @ evs1 @ evs2 @ [Slog Error ''Failed to create post'' [(''error'', AError err)],
                                          Println ''Error: Failed to create post''], Inr ())"
  | (posted) evs0 fl evs1 token evs2 where "prompt e fl0 = (evs0, Inr fl)" "GetToken e = (evs1, Inr token)"
      "CreatePost e token (compose_content (text fl) (hashtags fl)) (imageFile fl) = (evs2, Inr None)"
      "Run e fl0 = (evs0 @ evs1 @ evs2 @ [Println ''Post created successfully!''], Inr ())"
proof -
  obtain evs0 r0 where p: "prompt e fl0 = (evs0, r0)" by (cases "prompt e fl0")
  obtain evs1 r1 where g: "GetToken e = (evs1, r1)" by (cases "GetToken e")
  show ?thesis
  proof (cases r0)
    case (Inl a)
    with p show ?thesis by (intro prompt_failed [of evs0 a]) (simp_all add: Run_def)
  next
    case fl: (Inr fl)
    show ?thesis
    proof (cases r1)
      case (Inl err)
      with p g fl show ?thesis by (intro auth_failed [of evs0 fl evs1 err]) (simp_all add: Run_def)
    next
      case tok: (Inr token)
      obtain evs2 r2 where c: "CreatePost e token (compose_content (text fl) (hashtags fl)) (imageFile fl) = (evs2, r2)"
        by (cases "CreatePost e token (compose_content (text fl) (hashtags fl)) (imageFile fl)")
      show ?thesis
      proof (cases r2)
        case (Inl a)
        with p g fl tok c show ?thesis by (intro crashed [of evs0 fl evs1 token evs2 a]) (simp_all add: Run_def)
      next
        case res: (Inr res)
        show ?thesis
        proof (cases res)
          case None
          with p g fl tok c res show ?thesis by (intro posted [of evs0 fl evs1 token evs2]) (simp_all add: Run_def)
        next
          case (Some err)
          with p g fl tok c res show ?thesis
            by (intro post_failed [of evs0 fl evs1 token evs2 err]) (simp_all add: Run_def)
        qed
      qed
    qed
  qed
qed

lemma Run_response:
  assumes "Response (record_url e) st \<in> set (fst (Run e fl0))"
  obtains evs0 fl evs1 token where "prompt e fl0 = (evs0, Inr fl)" "GetToken e = (evs1, Inr token)"
    "Response (record_url e) st
       \<in> set (fst (CreatePost e token (compose_content (text fl) (hashtags fl)) (imageFile fl)))"
proof (cases e fl0 rule: Run_cases)
  case (prompt_failed evs0 a)
  with assms prompt_events [of "Response (record_url e) st" e fl0] show ?thesis by auto
next
  case (auth_failed evs0 fl evs1 err)
  with assms prompt_events [of "Response (record_url e) st" e fl0]
    GetToken_events [of "Response (record_url e) st" e]
  show ?thesis by auto
next
  case (crashed evs0 fl evs1 token evs2 a)
  with assms prompt_events [of "Response (record_url e) st" e fl0]
    GetToken_events [of "Response (record_url e) st" e]
  show ?thesis by (intro that [of evs0 fl evs1 token]) auto
next
  case (post_failed evs0 fl evs1 token evs2 err)
  with assms prompt_events [of "Response (record_url e) st" e fl0]
    GetToken_events [of "Response (record_url e) st" e]
  show ?thesis by (intro that [of evs0 fl evs1 token]) auto
next
  case (posted evs0 fl evs1 token evs2)
  with assms prompt_events [of "Response (record_url e) st" e fl0]
    GetToken_events [of "Response (record_url e) st" e]
  show ?thesis by (intro that [of evs0 fl evs1 token]) auto
qed

lemma Run_post_failed:
  assumes "prompt e fl0 = (evs0, Inr fl)" and "GetToken e = (evs1, Inr token)"
    and "snd (CreatePost e token (compose_content (text fl) (hashtags fl)) (imageFile fl)) = Inr (Some err)"
  shows "snd (Run e fl0) = Inr ()
     \<and> Slog Error ''Failed to create post'' [(''error'', AError err)] \<in> set (fst (Run e fl0))
     \<and> Println ''Error: Failed to create post'' \<in> set (fst (Run e fl0))
     \<and> Println ''Post created successfully!'' \<notin> set (fst (Run e fl0))"
proof -
  let ?c = "CreatePost e token (compose_content (text fl) (hashtags fl)) (imageFile fl)"
  have r: "Run e fl0 = (evs0 @ evs1 @ fst ?c @ [Slog Error ''Failed to create post'' [(''error'', AError err)],
                                               Println ''Error: Failed to create post''], Inr ())"
    using assms by (cases ?c) (simp add: Run_def)
  have "Println ''Post created successfully!'' \<notin> set evs0"
    using prompt_events [of "Println ''Post created successfully!''" e fl0] assms(1) by auto
  moreover have "Println ''Post created successfully!'' \<notin> set evs1"
    using GetToken_events [of "Println ''Post created successfully!''" e] assms(2) by auto
  moreover have "Println ''Post created successfully!'' \<notin> set (fst ?c)"
    by (rule CreatePost_no_success_message)
  ultimately show ?thesis unfolding r by simp
qed

text \<open>
  C6: in every run in which the record-creation request is answered with a status other
  than 200 (after a successful upload or without an image), CreatePost returns the
  unexpected-status error, the command logs it, prints the failure message and does not
  print the success message.
\<close>

theorem failed_creation_reported:
  assumes "st \<noteq> 200"
  shows "(Response (record_url e) st \<in> set (fst (CreatePost e token content imagePath))
            \<longrightarrow> snd (CreatePost e token content imagePath) = Inr (Some (UnexpectedStatus st)))
     \<and> (Response (record_url e) st \<in> set (fst (Run e fl0))
            \<longrightarrow> snd (Run e fl0) = Inr ()
              \<and> Slog Error ''Failed to create post'' [(''error'', AError (UnexpectedStatus st))]
                    \<in> set (fst (Run e fl0))
              \<and> Println ''Error: Failed to create post'' \<in> set (fst (Run e fl0))
              \<and> Println ''Post created successfully!'' \<notin> set (fst (Run e fl0)))"
proof (rule conjI)
  show "Response (record_url e) st \<in> set (fst (CreatePost e token content imagePath))
            \<longrightarrow> snd (CreatePost e token content imagePath) = Inr (Some (UnexpectedStatus st))"
    using CreatePost_response [of e st token content imagePath] assms by simp
next
  show "Response (record_url e) st \<in> set (fst (Run e fl0))
            \<longrightarrow> snd (Run e fl0) = Inr ()
              \<and> Slog Error ''Failed to create post'' [(''error'', AError (UnexpectedStatus st))]
                    \<in> set (fst (Run e fl0))
              \<and> Println ''Error: Failed to create post'' \<in> set (fst (Run e fl0))
              \<and> Println ''Post created successfully!'' \<notin> set (fst (Run e fl0))"
  proof
    assume "Response (record_url e) st \<in> set (fst (Run e fl0))"
    then obtain evs0 fl evs1 tok where p: "prompt e fl0 = (evs0, Inr fl)" and g: "GetToken e = (evs1, Inr tok)"
      and c: "Response (record_url e) st
         \<in> set (fst (CreatePost e tok (compose_content (text fl) (hashtags fl)) (imageFile fl)))"
      by (rule Run_response)
    from CreatePost_response [OF c] assms
    have "snd (CreatePost e tok (compose_content (text fl) (hashtags fl)) (imageFile fl))
        = Inr (Some (UnexpectedStatus st))" by simp
    from Run_post_failed [OF p g this]
    show "snd (Run e fl0) = Inr ()
                \<and> Slog Error ''Failed to create post'' [(''error'', AError (UnexpectedStatus st))]
                      \<in> set (fst (Run e fl0))
                \<and> Println ''Error: Failed to create post'' \<in> set (fst (Run e fl0))
                \<and> Println ''Post created successfully!'' \<notin> set (fst (Run e fl0))" .
  qed
qed

subsection \<open>Evaluating concrete runs\<close>

lemma digits_small: "n < 10 \<Longrightarrow> digits n = [''0123456789'' ! n]"
  by (simp add: digits.simps)

lemma digits_large: "\<not> n < 10 \<Longrightarrow> digits n = digits (n div 10) @ [''0123456789'' ! (n mod 10)]"
  by (subst digits.simps) simp

lemmas format_simps = format_RFC3339Nano_def appendInt_def appendNano_def trim_zeros_def
  digits_small digits_large

lemmas mime_simps = resolved_mimeType_def getMimeType_def ToLower_def Ext_def IsPathSeparator_def
  is_ascii_def ascii_lower_def

lemmas run_simps = Run_def prompt_def GetToken_def CreatePost_def getCurrentTime_def attach_image_def
  uploadImage_def upload_send_def upload_request_def upload_result_def upload_url_def
  getImageDimensions_def submit_record_def image_embed_def record_url_def Let_def
  env0_def token0_def blob0_def post0_def

lemma Run_env_create_fails:
  "Run env_create_fails \<lparr>text = ''Hello'', hashtags = [''a'', ''b''], imageFile = ''a.png''\<rparr> =
  ([SessionRequest ''alice'' ''secret'',
    Println ''Uploading image: a.png'',
    Slog Info ''Uploading image''
      [(''path'', AString ''a.png''), (''size'', AInt 3), (''mimeType'', AString ''image/png'')],
    NewRequest ''POST'' ''https://bsky.social/xrpc/com.atproto.repo.uploadBlob'',
    Send \<lparr>Method = ''POST'', Url = ''https://bsky.social/xrpc/com.atproto.repo.uploadBlob'',
           Authorization = ''Bearer jwt'', ContentType = ''image/png'', ReqBody = ''img'',
           Timeout = Some 30\<rparr>,
    Response ''https://bsky.social/xrpc/com.atproto.repo.uploadBlob'' 200,
    Slog Info ''Image uploaded successfully'' [(''blob_link'', AString ''bafy''), (''size'', AInt 3)],
    NewRequest ''POST'' ''https://bsky.social/xrpc/com.atproto.repo.createRecord'',
    Send \<lparr>Method = ''POST'', Url = ''https://bsky.social/xrpc/com.atproto.repo.createRecord'',
           Authorization = ''Bearer jwt'', ContentType = ''application/json'', ReqBody = ''{}'',
           Timeout = None\<rparr>,
    Response ''https://bsky.social/xrpc/com.atproto.repo.createRecord'' 500,
    Slog Error ''API error response'' [(''response'', AJson [])],
    Slog Error ''Failed to create post'' [(''error'', AError (UnexpectedStatus 500))],
    Println ''Error: Failed to create post''],
   Inr ())"
  by (simp add: run_simps format_simps mime_simps env_create_fails_def)

theorem failed_creation_reported_witness:
  "Response (record_url env_create_fails) 500
      \<in> set (fst (Run env_create_fails \<lparr>text = ''Hello'', hashtags = [''a'', ''b''], imageFile = ''a.png''\<rparr>))
   \<and> Slog Info ''Image uploaded successfully'' [(''blob_link'', AString ''bafy''), (''size'', AInt 3)]
      \<in> set (fst (Run env_create_fails \<lparr>text = ''Hello'', hashtags = [''a'', ''b''], imageFile = ''a.png''\<rparr>))
   \<and> snd (CreatePost env_create_fails token0 ''Hello #a #b'' ''a.png'') = Inr (Some (UnexpectedStatus 500))
   \<and> Println ''Error: Failed to create post''
      \<in> set (fst (Run env_create_fails \<lparr>text = ''Hello'', hashtags = [''a'', ''b''], imageFile = ''a.png''\<rparr>))
   \<and> Println ''Post created successfully!''
      \<notin> set (fst (Run env_create_fails \<lparr>text = ''Hello'', hashtags = [''a'', ''b''], imageFile = ''a.png''\<rparr>))"
proof -
  let ?fl = "\<lparr>text = ''Hello'', hashtags = [''a'', ''b''], imageFile = ''a.png''\<rparr>"
  have u: "record_url env_create_fails = ''https://bsky.social/xrpc/com.atproto.repo.createRecord''"
    by (simp add: record_url_def env_create_fails_def env0_def)
  have r: "Response (record_url env_create_fails) 500 \<in> set (fst (Run env_create_fails ?fl))"
    unfolding u Run_env_create_fails by simp
  have c: "Response (record_url env_create_fails) 500
      \<in> set (fst (CreatePost env_create_fails token0 ''Hello #a #b'' ''a.png''))"
    by (simp add: run_simps format_simps mime_simps env_create_fails_def)
  have i: "Slog Info ''Image uploaded successfully'' [(''blob_link'', AString ''bafy''), (''size'', AInt 3)]
      \<in> set (fst (Run env_create_fails ?fl))"
    unfolding Run_env_create_fails by simp
  have n: "(500::int) \<noteq> 200" by simp
  from failed_creation_reported [OF n, of env_create_fails token0 "''Hello #a #b''" "''a.png''" ?fl] r c i
  show ?thesis by blast
qed

subsection \<open>Decode failures\<close>

lemma upload_send_no_error_log:
  assumes "upload_send e token imgData mimeType = (evs, Inr r)"
  shows "Slog Error m as \<notin> set evs"
  using assms
  by (auto simp add: upload_send_def upload_result_def Let_def
      split: sum.splits option.splits if_splits json.splits)

lemma uploadImage_no_error_log:
  assumes "uploadImage e token imagePath = (evs, Inr r)"
  shows "Slog Error m as \<notin> set evs"
proof (cases "os_Stat e imagePath")
  case StatOk
  show ?thesis
  proof (cases "os_ReadFile e imagePath")
    case (Inl err)
    with StatOk assms show ?thesis by (simp add: uploadImage_def)
  next
    case (Inr imgData)
    show ?thesis
    proof (cases "length imgData \<le> 1000000")
      case True
      obtain evs' r' where s: "upload_send e token imgData (resolved_mimeType e imagePath) = (evs', r')"
        by (cases "upload_send e token imgData (resolved_mimeType e imagePath)")
      with assms uploadImage_proceeds [OF StatOk Inr True, of token]
      have "r' = Inr r" and "\<exists>ev. evs = ev # evs' \<and> ev \<noteq> Slog Error m as" by auto
      with s upload_send_no_error_log [of e token imgData _ evs' r m as] show ?thesis by auto
    next
      case False
      with StatOk Inr assms show ?thesis by (simp add: uploadImage_def)
    qed
  qed
qed (use assms in \<open>simp_all add: uploadImage_def\<close>)

lemma attach_image_no_error_log:
  assumes "attach_image e token imagePath = (evs, Inr embedding)"
  shows "Slog Error m as \<notin> set evs"
proof -
  obtain evs' r where u: "uploadImage e token imagePath = (evs', r)"
    by (cases "uploadImage e token imagePath")
  show ?thesis
  proof (cases r)
    case (Inl err)
    with u assms show ?thesis by (simp add: attach_image_def)
  next
    case (Inr blobResp)
    with u have "Slog Error m as \<notin> set evs'" by (simp add: uploadImage_no_error_log)
    with u Inr assms show ?thesis
      by (auto simp add: attach_image_def getImageDimensions_def Let_def
          split: sum.splits option.splits prod.splits)
  qed
qed

lemma submit_record_no_error_log:
  assumes "snd (submit_record e token rcd) = None"
  shows "Slog Error m as \<notin> set (fst (submit_record e token rcd))"
  using assms
  by (auto simp add: submit_record_def Let_def split: sum.splits option.splits if_splits)

lemma attach_image_Println:
  assumes "Println s \<in> set (fst (attach_image e token imagePath))"
  shows "s = ''Uploading image: '' @ imagePath
     \<or> s = ''Warning: Could not determine image dimensions, aspect ratio won't be specified''"
proof -
  obtain evs r where u: "uploadImage e token imagePath = (evs, r)"
    by (cases "uploadImage e token imagePath")
  have p: "Println s \<notin> set evs"
    using uploadImage_events [of "Println s" e token imagePath] u by auto
  show ?thesis
    using assms u p
    by (auto simp add: attach_image_def getImageDimensions_def Let_def
        split: sum.splits option.splits prod.splits)
qed

lemma CreatePost_Println:
  assumes "Println s \<in> set (fst (CreatePost e token content imagePath))"
  shows "s = ''Uploading image: '' @ imagePath
     \<or> s = ''Warning: Could not determine image dimensions, aspect ratio won't be specified''"
proof -
  have n: "Println s \<notin> set (fst (submit_record e token rcd))" for rcd
    using submit_record_events [of "Println s" e token rcd] by blast
  obtain evs r where a: "attach_image e token imagePath = (evs, r)"
    by (cases "attach_image e token imagePath")
  have "Println s \<in> set evs"
    using assms a n
    by (auto simp add: CreatePost_def Let_def split_beta split: sum.splits if_splits)
  with attach_image_Println [of s e token imagePath] a show ?thesis by simp
qed

lemma CreatePost_no_error_log:
  assumes "snd (CreatePost e token content imagePath) = Inr None"
  shows "Slog Error m as \<notin> set (fst (CreatePost e token content imagePath))"
proof -
  obtain evs r where a: "attach_image e token imagePath = (evs, r)"
    by (cases "attach_image e token imagePath")
  show ?thesis
    using assms a attach_image_no_error_log [of e token imagePath evs _ m as]
      submit_record_no_error_log [of e token _ m as]
    by (auto simp add: CreatePost_def Let_def split_beta split: sum.splits if_splits)
qed

lemma uploadImage_decode_failure:
  assumes "os_Stat e imagePath = StatOk"
    and "os_ReadFile e imagePath = Inr imgData"
    and "length imgData \<le> 1000000"
    and "http_NewRequest e ''POST'' (upload_url e) = None"
    and "client_Do e (upload_request e token imgData (resolved_mimeType e imagePath)) = Inr resp"
    and "StatusCode resp = 200"
    and "Body resp = Inr body"
    and "json_Unmarshal_blob e body = Inl err"
  shows "snd (uploadImage e token imagePath) = Inl (DecodeResponseFailed err body)"
proof -
  have "snd (uploadImage e token imagePath) = snd (upload_result e imgData 200 body)"
    using uploadImage_proceeds [OF assms(1-3), of token] upload_send_answered [OF assms(4,5,7)] assms(6)
    by simp
  then show ?thesis using assms(8) by (simp add: upload_result_def)
qed

lemma CreatePost_upload_failed:
  assumes "getCurrentTime e = Inr createdAt" and "imagePath \<noteq> []"
    and "snd (uploadImage e token imagePath) = Inl err"
  shows "snd (CreatePost e token content imagePath) = Inr (Some (UploadImageFailed err))"
  using assms
  by (cases "uploadImage e token imagePath") (simp add: CreatePost_def attach_image_def)

lemma Run_posted:
  assumes "Response (record_url e) 200 \<in> set (fst (Run e fl0))"
  shows "snd (Run e fl0) = Inr ()
     \<and> Println ''Post created successfully!'' \<in> set (fst (Run e fl0))
     \<and> Println ''Error: Failed to create post'' \<notin> set (fst (Run e fl0))
     \<and> (\<forall>m as. Slog Error m as \<notin> set (fst (Run e fl0)))"
proof -
  from assms obtain evs0 fl evs1 tok where p: "prompt e fl0 = (evs0, Inr fl)"
    and g: "GetToken e = (evs1, Inr tok)"
    and c: "Response (record_url e) 200
         \<in> set (fst (CreatePost e tok (compose_content (text fl) (hashtags fl)) (imageFile fl)))"
    by (rule Run_response)
  let ?c = "CreatePost e tok (compose_content (text fl) (hashtags fl)) (imageFile fl)"
  from CreatePost_response [OF c] have s: "snd ?c = Inr None" by simp
  then have r: "Run e fl0 = (evs0 @ evs1 @ fst ?c @ [Println ''Post created successfully!''], Inr ())"
    using p g by (cases ?c) (simp add: Run_def)
  have e0: "evs0 = []"
    using p by (auto simp add: prompt_def split: if_splits sum.splits prod.splits)
  have e1: "\<forall>ev\<in>set evs1. \<exists>i s. ev = SessionRequest i s"
    using GetToken_events [of _ e] g by simp
  have e2: "Println ''Error: Failed to create post'' \<notin> set (fst ?c)"
    using CreatePost_Println [of "''Error: Failed to create post''" e tok _ "imageFile fl"] by auto
  have e3: "Slog Error m as \<notin> set (fst ?c)" for m as
    using s by (rule CreatePost_no_error_log)
  show ?thesis unfolding r using e0 e1 e2 e3 by auto
qed

text \<open>
  C7, as the code has it: a decode failure of the upload response is reported (uploadImage
  returns the decode error, and the command logs it and prints the failure message, not
  the success message); a record-creation response with status 200 ends the run with the
  success message, without the failure message and without any log line at error level,
  whether or not its body decodes.
\<close>

theorem decode_failure_reporting:
  "(os_Stat e imagePath = StatOk \<and> os_ReadFile e imagePath = Inr imgData \<and> length imgData \<le> 1000000
      \<and> http_NewRequest e ''POST'' (upload_url e) = None
      \<and> client_Do e (upload_request e token imgData (resolved_mimeType e imagePath)) = Inr resp
      \<and> StatusCode resp = 200 \<and> Body resp = Inr body \<and> json_Unmarshal_blob e body = Inl err
    \<longrightarrow> snd (uploadImage e token imagePath) = Inl (DecodeResponseFailed err body))
   \<and> (prompt e fls = (pevs, Inr fl) \<and> GetToken e = (tevs, Inr tok) \<and> getCurrentTime e = Inr createdAt
        \<and> imageFile fl \<noteq> [] \<and> snd (uploadImage e tok (imageFile fl)) = Inl (DecodeResponseFailed err body)
    \<longrightarrow> snd (Run e fls) = Inr ()
        \<and> Slog Error ''Failed to create post''
             [(''error'', AError (UploadImageFailed (DecodeResponseFailed err body)))] \<in> set (fst (Run e fls))
        \<and> Println ''Error: Failed to create post'' \<in> set (fst (Run e fls))
        \<and> Println ''Post created successfully!'' \<notin> set (fst (Run e fls)))
   \<and> (Response (record_url e) 200 \<in> set (fst (Run e fls))
    \<longrightarrow> snd (Run e fls) = Inr ()
        \<and> Println ''Post created successfully!'' \<in> set (fst (Run e fls))
        \<and> Println ''Error: Failed to create post'' \<notin> set (fst (Run e fls))
        \<and> (\<forall>m as. Slog Error m as \<notin> set (fst (Run e fls))))"
proof (rule conjI)
  show "os_Stat e imagePath = StatOk \<and> os_ReadFile e imagePath = Inr imgData \<and> length imgData \<le> 1000000
      \<and> http_NewRequest e ''POST'' (upload_url e) = None
      \<and> client_Do e (upload_request e token imgData (resolved_mimeType e imagePath)) = Inr resp
      \<and> StatusCode resp = 200 \<and> Body resp = Inr body \<and> json_Unmarshal_blob e body = Inl err
    \<longrightarrow> snd (uploadImage e token imagePath) = Inl (DecodeResponseFailed err body)"
    using uploadImage_decode_failure [of e imagePath imgData token resp body err] by simp
next
  show "(prompt e fls = (pevs, Inr fl) \<and> GetToken e = (tevs, Inr tok) \<and> getCurrentTime e = Inr createdAt
        \<and> imageFile fl \<noteq> [] \<and> snd (uploadImage e tok (imageFile fl)) = Inl (DecodeResponseFailed err body)
    \<longrightarrow> snd (Run e fls) = Inr ()
        \<and> Slog Error ''Failed to create post''
             [(''error'', AError (UploadImageFailed (DecodeResponseFailed err body)))] \<in> set (fst (Run e fls))
        \<and> Println ''Error: Failed to create post'' \<in> set (fst (Run e fls))
        \<and> Println ''Post created successfully!'' \<notin> set (fst (Run e fls)))
   \<and> (Response (record_url e) 200 \<in> set (fst (Run e fls))
    \<longrightarrow> snd (Run e fls) = Inr ()
        \<and> Println ''Post created successfully!'' \<in> set (fst (Run e fls))
        \<and> Println ''Error: Failed to create post'' \<notin> set (fst (Run e fls))
        \<and> (\<forall>m as. Slog Error m as \<notin> set (fst (Run e fls))))"
  proof (rule conjI)
    show "prompt e fls = (pevs, Inr fl) \<and> GetToken e = (tevs, Inr tok) \<and> getCurrentTime e = Inr createdAt
        \<and> imageFile fl \<noteq> [] \<and> snd (uploadImage e tok (imageFile fl)) = Inl (DecodeResponseFailed err body)
    \<longrightarrow> snd (Run e fls) = Inr ()
        \<and> Slog Error ''Failed to create post''
             [(''error'', AError (UploadImageFailed (DecodeResponseFailed err body)))] \<in> set (fst (Run e fls))
        \<and> Println ''Error: Failed to create post'' \<in> set (fst (Run e fls))
        \<and> Println ''Post created successfully!'' \<notin> set (fst (Run e fls))"
    proof
      assume a: "prompt e fls = (pevs, Inr fl) \<and> GetToken e = (tevs, Inr tok) \<and> getCurrentTime e = Inr createdAt
        \<and> imageFile fl \<noteq> [] \<and> snd (uploadImage e tok (imageFile fl)) = Inl (DecodeResponseFailed err body)"
      then have "snd (CreatePost e tok (compose_content (text fl) (hashtags fl)) (imageFile fl))
          = Inr (Some (UploadImageFailed (DecodeResponseFailed err body)))"
        by (simp add: CreatePost_upload_failed)
      with a Run_post_failed [of e fls pevs fl tevs tok]
      show "snd (Run e fls) = Inr ()
        \<and> Slog Error ''Failed to create post''
             [(''error'', AError (UploadImageFailed (DecodeResponseFailed err body)))] \<in> set (fst (Run e fls))
        \<and> Println ''Error: Failed to create post'' \<in> set (fst (Run e fls))
        \<and> Println ''Post created successfully!'' \<notin> set (fst (Run e fls))"
        by simp
    qed
  next
    show "Response (record_url e) 200 \<in> set (fst (Run e fls))
    \<longrightarrow> snd (Run e fls) = Inr ()
        \<and> Println ''Post created successfully!'' \<in> set (fst (Run e fls))
        \<and> Println ''Error: Failed to create post'' \<notin> set (fst (Run e fls))
        \<and> (\<forall>m as. Slog Error m as \<notin> set (fst (Run e fls)))"
      using Run_posted [of e fls] by blast
  qed
qed

theorem decode_failure_reporting_witness:
  "snd (uploadImage env_undecodable_blob token0 ''a.png'')
      = Inl (DecodeResponseFailed (External ''unexpected end of JSON input'') ''{}'')
   \<and> Slog Error ''Failed to create post''
        [(''error'', AError (UploadImageFailed
            (DecodeResponseFailed (External ''unexpected end of JSON input'') ''{}'')))]
      \<in> set (fst (Run env_undecodable_blob \<lparr>text = ''Hello'', hashtags = [], imageFile = ''a.png''\<rparr>))
   \<and> Println ''Error: Failed to create post''
      \<in> set (fst (Run env_undecodable_blob \<lparr>text = ''Hello'', hashtags = [], imageFile = ''a.png''\<rparr>))
   \<and> Response (record_url env_undecodable_post) 200
      \<in> set (fst (Run env_undecodable_post \<lparr>text = ''Hello'', hashtags = [], imageFile = []\<rparr>))
   \<and> Println ''Post created successfully!''
      \<in> set (fst (Run env_undecodable_post \<lparr>text = ''Hello'', hashtags = [], imageFile = []\<rparr>))"
proof -
  let ?b = env_undecodable_blob and ?p = env_undecodable_post
  let ?fi = "\<lparr>text = ''Hello'', hashtags = [], imageFile = ''a.png''\<rparr>"
  let ?ft = "\<lparr>text = ''Hello'', hashtags = [], imageFile = []\<rparr>"
  let ?err = "External ''unexpected end of JSON input''"
  have h1: "os_Stat ?b ''a.png'' = StatOk \<and> os_ReadFile ?b ''a.png'' = Inr ''img'' \<and> length ''img'' \<le> 1000000
      \<and> http_NewRequest ?b ''POST'' (upload_url ?b) = None
      \<and> client_Do ?b (upload_request ?b token0 ''img'' (resolved_mimeType ?b ''a.png''))
          = Inr \<lparr>StatusCode = 200, Body = Inr ''{}''\<rparr>
      \<and> StatusCode \<lparr>StatusCode = 200, Body = Inr ''{}''\<rparr> = 200
      \<and> Body \<lparr>StatusCode = 200, Body = Inr ''{}''\<rparr> = Inr ''{}''
      \<and> json_Unmarshal_blob ?b ''{}'' = Inl ?err"
    by (simp add: env_undecodable_blob_def env0_def)
  have a1: "snd (uploadImage ?b token0 ''a.png'') = Inl (DecodeResponseFailed ?err ''{}'')"
    using decode_failure_reporting [where e = ?b and imagePath = "''a.png''" and imgData = "''img''"
        and token = token0 and resp = "\<lparr>StatusCode = 200, Body = Inr ''{}''\<rparr>" and body = "''{}''"
        and err = ?err, THEN conjunct1] h1
    by blast
  have h2: "prompt ?b ?fi = ([], Inr ?fi) \<and> GetToken ?b = ([SessionRequest ''alice'' ''secret''], Inr token0)
      \<and> getCurrentTime ?b = Inr ''2025-01-01T12:30:45.123Z'' \<and> imageFile ?fi \<noteq> []"
    by (simp add: prompt_def GetToken_def getCurrentTime_def format_simps env_undecodable_blob_def env0_def)
  have a2: "Slog Error ''Failed to create post'' [(''error'', AError (UploadImageFailed (DecodeResponseFailed ?err ''{}'')))]
        \<in> set (fst (Run ?b ?fi))
      \<and> Println ''Error: Failed to create post'' \<in> set (fst (Run ?b ?fi))"
    using decode_failure_reporting [where e = ?b and body = "''{}''" and err = ?err and fls = ?fi
        and pevs = "[]" and fl = ?fi and tevs = "[SessionRequest ''alice'' ''secret'']" and tok = token0
        and createdAt = "''2025-01-01T12:30:45.123Z''", THEN conjunct2, THEN conjunct1] h2 a1
    by simp
  have h3: "Response (record_url ?p) 200 \<in> set (fst (Run ?p ?ft))"
    by (simp add: run_simps format_simps env_undecodable_post_def)
  have a3: "Println ''Post created successfully!'' \<in> set (fst (Run ?p ?ft))"
    using decode_failure_reporting [where e = ?p and fls = ?ft, THEN conjunct2, THEN conjunct2] h3
    by blast
  from a1 a2 h3 a3 show ?thesis by blast
qed

text \<open>
  C7 as stated fails: the record creation is answered with status 200 and a body that does
  not decode, and the run consists of the session request, the record-creation request and
  the success message, with no log line and no failure message.
\<close>

theorem decode_failure_unreported_counterexample:
  "json_Unmarshal_post env_undecodable_post ''{}'' = Inl (External ''unexpected end of JSON input'')
   \<and> Run env_undecodable_post \<lparr>text = ''Hello'', hashtags = [], imageFile = []\<rparr> =
     ([SessionRequest ''alice'' ''secret'',
       NewRequest ''POST'' ''https://bsky.social/xrpc/com.atproto.repo.createRecord'',
       Send \<lparr>Method = ''POST'', Url = ''https://bsky.social/xrpc/com.atproto.repo.createRecord'',
              Authorization = ''Bearer jwt'', ContentType = ''application/json'', ReqBody = ''{}'',
              Timeout = None\<rparr>,
       Response ''https://bsky.social/xrpc/com.atproto.repo.createRecord'' 200,
       Println ''Post created successfully!''],
      Inr ())"
  by (simp add: run_simps format_simps env_undecodable_post_def)

subsection \<open>The timestamp\<close>

lemma fixed_zero: "fixed w 0 = replicate w (CHR ''0'')"
  by (induction w) (simp_all add: replicate_append_same)

lemma length_fixed: "length (fixed w n) = w"
  by (induction w arbitrary: n) simp_all

lemma pad_digits:
  "n < 10 ^ Suc w \<Longrightarrow> replicate (Suc w - length (digits n)) (CHR ''0'') @ digits n = fixed (Suc w) n"
proof (induction w arbitrary: n)
  case 0
  then show ?case by (simp add: digits_small)
next
  case (Suc w)
  show ?case
  proof (cases "n < 10")
    case True
    then show ?thesis by (simp add: digits_small fixed_zero replicate_append_same)
  next
    case False
    from Suc.prems have "n div 10 < 10 ^ Suc w" by simp
    from Suc.IH [OF this] False show ?thesis
      by (simp add: digits_large)
  qed
qed

lemma appendInt_fixed:
  assumes "n < 10 ^ Suc w"
  shows "appendInt (int n) (Suc w) = fixed (Suc w) n"
  using pad_digits [OF assms] by (simp add: appendInt_def)

lemma appendInt_fixed_width:
  assumes "0 < w" and "n < 10 ^ w"
  shows "appendInt (int n) w = fixed w n"
proof -
  from assms(1) obtain w' where "w = Suc w'" by (cases w) auto
  with assms(2) appendInt_fixed [of n w'] show ?thesis by simp
qed

lemma fixed_append: "fixed (a + b) n = fixed a (n div 10 ^ b) @ fixed b n"
proof (induction b arbitrary: n)
  case 0
  show ?case by simp
next
  case (Suc b)
  have "fixed (a + Suc b) n = fixed (a + b) (n div 10) @ [''0123456789'' ! (n mod 10)]" by simp
  also have "\<dots> = fixed a (n div 10 div 10 ^ b) @ fixed b (n div 10) @ [''0123456789'' ! (n mod 10)]"
    by (simp add: Suc.IH)
  also have "n div 10 div 10 ^ b = n div 10 ^ Suc b"
    by (simp add: div_mult2_eq)
  finally show ?case by simp
qed

lemma digit_zero: "d < 10 \<Longrightarrow> ''0123456789'' ! d = CHR ''0'' \<longleftrightarrow> d = 0"
proof -
  assume "d < 10"
  then have "d \<in> {0, 1, 2, 3, 4, 5, 6, 7, 8, 9}" by auto
  then show ?thesis by auto
qed

lemma fixed_all_zero: "(\<forall>c\<in>set (fixed w n). c = CHR ''0'') \<longleftrightarrow> n mod 10 ^ w = 0"
proof (induction w arbitrary: n)
  case 0
  show ?case by simp
next
  case (Suc w)
  have d: "''0123456789'' ! (n mod 10) = CHR ''0'' \<longleftrightarrow> n mod 10 = 0"
    by (rule digit_zero) simp
  have "n mod 10 ^ Suc w = 10 * (n div 10 mod 10 ^ w) + n mod 10"
    by (simp add: mod_mult2_eq)
  then have m: "n mod 10 ^ Suc w = 0 \<longleftrightarrow> n mod 10 = 0 \<and> (n div 10) mod 10 ^ w = 0"
    by auto
  show ?case using Suc.IH [of "n div 10"] d m by auto
qed

lemma trim_zeros_append:
  assumes "\<exists>c\<in>set ys. c \<noteq> CHR ''0''"
  shows "trim_zeros (xs @ ys) = xs @ trim_zeros ys"
proof -
  from assms obtain c where "c \<in> set (rev ys)" and "\<not> c = CHR ''0''" by auto
  then have "dropWhile (\<lambda>c. c = CHR ''0'') (rev ys @ rev xs)
      = dropWhile (\<lambda>c. c = CHR ''0'') (rev ys) @ rev xs"
    by (rule dropWhile_append1)
  then show ?thesis by (simp add: trim_zeros_def)
qed

lemma trim_zeros_prefix: "\<exists>zs. ys = trim_zeros ys @ zs"
proof -
  have "rev ys = takeWhile (\<lambda>c. c = CHR ''0'') (rev ys) @ dropWhile (\<lambda>c. c = CHR ''0'') (rev ys)"
    by simp
  then have "ys = rev (dropWhile (\<lambda>c. c = CHR ''0'') (rev ys)) @ rev (takeWhile (\<lambda>c. c = CHR ''0'') (rev ys))"
    by (metis rev_append rev_rev_ident)
  then show ?thesis unfolding trim_zeros_def by blast
qed

lemma trim_zeros_nonempty:
  assumes "\<exists>c\<in>set ys. c \<noteq> CHR ''0''"
  shows "trim_zeros ys \<noteq> []"
  using assms by (auto simp add: trim_zeros_def dropWhile_eq_Nil_conv)

lemma trim_zeros_hd:
  assumes "\<exists>c\<in>set ys. c \<noteq> CHR ''0''"
  shows "\<exists>zs. trim_zeros ys = hd ys # zs"
proof -
  obtain zs where z: "ys = trim_zeros ys @ zs" using trim_zeros_prefix by blast
  from trim_zeros_nonempty [OF assms] obtain t ts where t: "trim_zeros ys = t # ts"
    by (cases "trim_zeros ys") auto
  with z have "hd ys = t" by (metis append_Cons list.sel(1))
  with t show ?thesis by simp
qed

lemma fixed_digits: "c \<in> set (fixed w n) \<Longrightarrow> c \<in> set ''0123456789''"
proof (induction w arbitrary: n)
  case 0
  then show ?case by simp
next
  case (Suc w)
  from Suc.prems have "c \<in> set (fixed w (n div 10)) \<or> c = ''0123456789'' ! (n mod 10)"
    by auto
  then show ?case
  proof
    assume "c \<in> set (fixed w (n div 10))"
    then show ?thesis by (rule Suc.IH)
  next
    have "n mod 10 < length ''0123456789''" by simp
    then have "''0123456789'' ! (n mod 10) \<in> set ''0123456789''" by (rule nth_mem)
    moreover assume "c = ''0123456789'' ! (n mod 10)"
    ultimately show ?thesis by (simp only:)
  qed
qed

lemma trim_zeros_subset: "c \<in> set (trim_zeros ys) \<Longrightarrow> c \<in> set ys"
  by (auto simp add: trim_zeros_def dest: set_dropWhileD)

text \<open>The fraction written by \<open>appendNano\<close> when it has at least three digits.\<close>

lemma appendNano_millis:
  assumes "n < 10 ^ 9" and "n mod 10 ^ 7 \<noteq> 0"
  shows "\<exists>zs. appendNano n = ''.'' @ fixed 3 (n div 1000000) @ zs"
proof -
  have nz: "\<exists>c\<in>set (fixed 7 n). c \<noteq> CHR ''0''"
    using fixed_all_zero [of 7 n] assms(2) by auto
  have n0: "n \<noteq> 0" using assms(2) by auto
  have f9: "fixed 9 n = fixed 2 (n div 10 ^ 7) @ fixed 7 n"
    using fixed_append [of 2 7 n] by simp
  have a: "appendInt (int n) 9 = fixed 9 n"
    using appendInt_fixed_width [of 9 n] assms(1) by simp
  have t: "trim_zeros (''.'' @ appendInt (int n) 9) = (''.'' @ fixed 2 (n div 10 ^ 7)) @ trim_zeros (fixed 7 n)"
    unfolding a f9 using trim_zeros_append [OF nz, of "''.'' @ fixed 2 (n div 10 ^ 7)"] by simp
  from trim_zeros_hd [OF nz] obtain zs where h: "trim_zeros (fixed 7 n) = hd (fixed 7 n) # zs" by blast
  have l: "last (trim_zeros (''.'' @ appendInt (int n) 9)) \<noteq> CHR ''.''"
  proof -
    have "last (trim_zeros (''.'' @ appendInt (int n) 9)) = last (trim_zeros (fixed 7 n))"
      unfolding t using h by simp
    moreover have "last (trim_zeros (fixed 7 n)) \<in> set (fixed 7 n)"
      using trim_zeros_subset [of _ "fixed 7 n"] h last_in_set [of "trim_zeros (fixed 7 n)"] by auto
    ultimately have "last (trim_zeros (''.'' @ appendInt (int n) 9)) \<in> set ''0123456789''"
      using fixed_digits by metis
    then show ?thesis by auto
  qed
  have f7: "fixed 7 n = fixed 1 (n div 10 ^ 6) @ fixed 6 n"
    using fixed_append [of 1 6 n] by simp
  have hd7: "hd (fixed 7 n) = ''0123456789'' ! (n div 10 ^ 6 mod 10)"
    unfolding f7 by simp
  have "n div 10 ^ 6 div 10 = n div 10 ^ 7"
    by (simp add: div_mult2_eq)
  then have f3: "fixed 3 (n div 10 ^ 6) = fixed 2 (n div 10 ^ 7) @ [hd (fixed 7 n)]"
    unfolding hd7 by (simp add: numeral_3_eq_3 numeral_2_eq_2)
  have "appendNano n = trim_zeros (''.'' @ appendInt (int n) 9)"
    using n0 l by (simp add: appendNano_def Let_def)
  also have "\<dots> = ''.'' @ fixed 3 (n div 10 ^ 6) @ zs"
    unfolding t h f3 by simp
  finally show ?thesis by auto
qed

lemma trim_zeros_zeros:
  assumes "\<forall>c\<in>set ys. c = CHR ''0''"
  shows "trim_zeros (xs @ ys) = trim_zeros xs"
proof -
  have "\<forall>c\<in>set (rev ys). c = CHR ''0''" using assms by simp
  then have "dropWhile (\<lambda>c. c = CHR ''0'') (rev ys @ rev xs) = dropWhile (\<lambda>c. c = CHR ''0'') (rev xs)"
    by (intro dropWhile_append2) auto
  then show ?thesis by (simp add: trim_zeros_def)
qed

lemma length_trim_zeros: "length (trim_zeros xs) \<le> length xs"
  by (simp add: trim_zeros_def length_dropWhile_le [of _ "rev xs", simplified])

lemma appendNano_short:
  assumes "n < 10 ^ 9" and "n mod 10 ^ 7 = 0"
  shows "length (appendNano n) \<le> 3"
proof (cases "n = 0")
  case True
  then show ?thesis by (simp add: appendNano_def)
next
  case False
  have z: "\<forall>c\<in>set (fixed 7 n). c = CHR ''0''"
    using fixed_all_zero [of 7 n] assms(2) by simp
  have f9: "fixed 9 n = fixed 2 (n div 10 ^ 7) @ fixed 7 n"
    using fixed_append [of 2 7 n] by simp
  have a: "appendInt (int n) 9 = fixed 9 n"
    using appendInt_fixed_width [of 9 n] assms(1) by simp
  have "trim_zeros (''.'' @ appendInt (int n) 9) = trim_zeros (''.'' @ fixed 2 (n div 10 ^ 7))"
    unfolding a f9 using trim_zeros_zeros [OF z, of "''.'' @ fixed 2 (n div 10 ^ 7)"] by simp
  moreover have "length (trim_zeros (''.'' @ fixed 2 (n div 10 ^ 7))) \<le> 3"
    using length_trim_zeros [of "''.'' @ fixed 2 (n div 10 ^ 7)"] by (simp add: length_fixed)
  ultimately have "length (trim_zeros (''.'' @ appendInt (int n) 9)) \<le> 3" by simp
  then show ?thesis using False by (auto simp add: appendNano_def Let_def)
qed

lemma format_prefix:
  assumes "valid_time t"
  shows "format_RFC3339Nano t =
     (fixed 4 (nat (Year t)) @ ''-'' @ fixed 2 (Month t) @ ''-'' @ fixed 2 (Day t)
      @ ''T'' @ fixed 2 (Hour t) @ '':'' @ fixed 2 (Minute t) @ '':'' @ fixed 2 (Second t))
     @ appendNano (Nanosecond t) @ ''Z''"
proof -
  have "0 \<le> Year t" and "nat (Year t) < 10 ^ 4"
    using assms by (auto simp add: valid_time_def)
  then have y: "appendInt (Year t) 4 = fixed 4 (nat (Year t))"
    using appendInt_fixed_width [of 4 "nat (Year t)"] by simp
  have "appendInt (int (Month t)) 2 = fixed 2 (Month t)" "appendInt (int (Day t)) 2 = fixed 2 (Day t)"
    "appendInt (int (Hour t)) 2 = fixed 2 (Hour t)" "appendInt (int (Minute t)) 2 = fixed 2 (Minute t)"
    "appendInt (int (Second t)) 2 = fixed 2 (Second t)"
    using appendInt_fixed_width [of 2 "Month t"] appendInt_fixed_width [of 2 "Day t"]
      appendInt_fixed_width [of 2 "Hour t"] appendInt_fixed_width [of 2 "Minute t"]
      appendInt_fixed_width [of 2 "Second t"] assms
    by (simp_all add: valid_time_def)
  with y show ?thesis by (simp add: format_RFC3339Nano_def)
qed

text \<open>
  On the times of the years 0 to 9999, \<open>getCurrentTime\<close> returns the timestamp of the
  specification exactly when the nanoseconds are not a multiple of 10,000,000, that is,
  when the fraction printed by \<open>Format\<close> has at least three digits.
\<close>

lemma getCurrentTime_iso8601:
  assumes "valid_time (now e)"
  shows "getCurrentTime e = Inr (iso8601_millis (now e)) \<longleftrightarrow> Nanosecond (now e) mod 10000000 \<noteq> 0"
proof -
  define t where "t = now e"
  define P where "P = fixed 4 (nat (Year t)) @ ''-'' @ fixed 2 (Month t) @ ''-'' @ fixed 2 (Day t)
      @ ''T'' @ fixed 2 (Hour t) @ '':'' @ fixed 2 (Minute t) @ '':'' @ fixed 2 (Second t)"
  define n where "n = Nanosecond t"
  define F where "F = fixed 3 (n div 1000000)"
  have v: "valid_time t" using assms by (simp add: t_def)
  have lP: "length P = 19" by (simp add: P_def length_fixed)
  have lF: "length F = 3" by (simp add: F_def length_fixed)
  have s: "format_RFC3339Nano t = P @ appendNano n @ ''Z''"
    using format_prefix [OF v] by (simp add: P_def n_def)
  have iso: "iso8601_millis t = P @ ''.'' @ F @ ''Z''"
    by (simp add: iso8601_millis_def P_def F_def n_def)
  have n9: "n < 10 ^ 9" using v by (simp add: valid_time_def n_def)
  show ?thesis
  proof (cases "n mod 10 ^ 7 = 0")
    case False
    from appendNano_millis [OF n9 False] obtain zs where "appendNano n = ''.'' @ F @ zs"
      by (auto simp add: F_def)
    with s have "format_RFC3339Nano t = (P @ ''.'' @ F) @ zs @ ''Z''" by simp
    moreover have "length (P @ ''.'' @ F) = 23" using lP lF by simp
    ultimately have "23 \<le> length (format_RFC3339Nano t)"
      and "take 23 (format_RFC3339Nano t) = P @ ''.'' @ F"
      by (simp_all del: append_assoc)
    then have "getCurrentTime e = Inr (iso8601_millis t)"
      unfolding iso by (simp add: getCurrentTime_def t_def Let_def)
    with False show ?thesis by (simp add: t_def n_def)
  next
    case True
    from appendNano_short [OF n9 True] have l: "length (format_RFC3339Nano t) \<le> 23"
      unfolding s using lP by simp
    have "getCurrentTime e \<noteq> Inr (iso8601_millis t)"
    proof (cases "length (format_RFC3339Nano t) = 23")
      case False
      with l have "\<not> 23 \<le> length (format_RFC3339Nano t)" by simp
      then show ?thesis by (simp add: getCurrentTime_def t_def Let_def)
    next
      case len: True
      then have la: "length (P @ appendNano n) = 22" unfolding s by simp
      have r: "getCurrentTime e = Inr ((P @ appendNano n) @ ''ZZ'')"
        using len s by (simp add: getCurrentTime_def t_def Let_def)
      have "((P @ appendNano n) @ CHR ''Z'' # ''Z'') ! length (P @ appendNano n) = CHR ''Z''"
        by (rule nth_append_length)
      then have "((P @ appendNano n) @ ''ZZ'') ! 22 = CHR ''Z''"
        unfolding la .
      moreover have "(P @ ''.'' @ F @ ''Z'') ! 22 = F ! 2"
        using lP lF by (simp add: nth_append)
      moreover have "F ! 2 \<in> set ''0123456789''"
        using fixed_digits [of "F ! 2" 3 "n div 1000000"] lF nth_mem [of 2 F] by (simp add: F_def)
      then have "F ! 2 \<noteq> CHR ''Z''" by auto
      ultimately have "(P @ appendNano n) @ ''ZZ'' \<noteq> P @ ''.'' @ F @ ''Z''" by metis
      with r iso show ?thesis by simp
    qed
    with True show ?thesis by (simp add: t_def n_def)
  qed
qed

text \<open>
  C4 fails on the code: at a whole second the formatted time has 20 bytes and the slice
  \<open>[:23]\<close> panics; at a whole number of hundredths it has exactly 23 bytes, so the
  result ends in \<open>ZZ\<close>. The nanoseconds of both times are multiples of 10,000,000.
\<close>

theorem getCurrentTime_short_fraction:
  "format_RFC3339Nano (now env_whole_second) = ''2025-01-01T12:30:45Z''
   \<and> getCurrentTime env_whole_second = Inl (Panic ''slice bounds out of range'')
   \<and> format_RFC3339Nano (now env_hundredths) = ''2025-01-01T12:30:45.12Z''
   \<and> getCurrentTime env_hundredths = Inr ''2025-01-01T12:30:45.12ZZ''"
  by (simp add: getCurrentTime_def format_simps env_whole_second_def env_hundredths_def env0_def)

subsection \<open>The exit status\<close>

lemma prompt_exit:
  "prompt e fl = (evs, Inl a) \<longleftrightarrow>
     text fl = [] \<and> imageFile fl = [] \<and> a = Exit 1
     \<and> (\<exists>err. form_Run e = Inl err
            \<and> evs = [Slog Error ''Failed to get user input'' [(''error'', AError err)]])"
  by (auto simp add: prompt_def split: sum.splits prod.splits)

lemma CreatePost_crashed:
  assumes "CreatePost e token content imagePath = (evs, Inl a)"
  shows "getCurrentTime e = Inl a"
  using assms
  by (cases "attach_image e token imagePath")
    (auto simp add: CreatePost_def Let_def split_beta split: sum.splits if_splits)

text \<open>
  When the timestamp does not panic, the exit status is 1 exactly after a parsing failure or
  a failure of the form, and 0 otherwise; a failed authentication and a failed post are
  logged and printed, and the status stays 0.
\<close>

lemma Execute_exit_status:
  assumes "getCurrentTime e = Inr createdAt"
  shows "snd (Execute e cmdline) \<in> {0, 1}"
    and "snd (Execute e cmdline) \<noteq> 0 \<longleftrightarrow>
      (\<exists>err. cmdline = ParseFailure err)
      \<or> (\<exists>fl err. cmdline = PostsCreate fl \<and> text fl = [] \<and> imageFile fl = [] \<and> form_Run e = Inl err)"
proof -
  have "snd (Execute e cmdline) \<in> {0, 1} \<and> (snd (Execute e cmdline) \<noteq> 0 \<longleftrightarrow>
      (\<exists>err. cmdline = ParseFailure err)
      \<or> (\<exists>fl err. cmdline = PostsCreate fl \<and> text fl = [] \<and> imageFile fl = [] \<and> form_Run e = Inl err))"
  proof (cases cmdline)
    case (PostsCreate fl)
    show ?thesis
    proof (cases e fl rule: Run_cases)
      case (prompt_failed evs0 a)
      then show ?thesis using PostsCreate prompt_exit [of e fl evs0 a]
        by (auto simp add: Execute_def)
    next
      case (auth_failed evs0 fl' evs1 err)
      then show ?thesis using PostsCreate prompt_exit [of e fl]
        by (auto simp add: Execute_def prompt_def split: if_splits sum.splits)
    next
      case (crashed evs0 fl' evs1 token evs2 a)
      from CreatePost_crashed [OF crashed(3)] assms show ?thesis by simp
    next
      case (post_failed evs0 fl' evs1 token evs2 err)
      then show ?thesis using PostsCreate
        by (auto simp add: Execute_def prompt_def split: if_splits sum.splits)
    next
      case (posted evs0 fl' evs1 token evs2)
      then show ?thesis using PostsCreate
        by (auto simp add: Execute_def prompt_def split: if_splits sum.splits)
    qed
  qed (simp_all add: Execute_def)
  then show "snd (Execute e cmdline) \<in> {0, 1}"
    and "snd (Execute e cmdline) \<noteq> 0 \<longleftrightarrow>
      (\<exists>err. cmdline = ParseFailure err)
      \<or> (\<exists>fl err. cmdline = PostsCreate fl \<and> text fl = [] \<and> imageFile fl = [] \<and> form_Run e = Inl err)"
    by blast+
qed

lemma Run_auth_failed:
  assumes "prompt e fl = (evs, Inr fl')" and "snd (GetToken e) = Inl err"
  shows "snd (Execute e (PostsCreate fl)) = 0
     \<and> Slog Error ''Failed to get authentication token'' [(''error'', AError err)] \<in> set (fst (Run e fl))
     \<and> Println ''Error: Failed to authenticate with Bluesky'' \<in> set (fst (Run e fl))"
  using assms by (cases "GetToken e") (simp add: Execute_def Run_def)

text \<open>
  C8 fails on the code: with the text flag set, the command line parsed and the
  authentication successful, a clock at a whole second makes the timestamp of CreatePost
  panic, and the process ends with status 2 after the session request.
\<close>

theorem Execute_panic_exit:
  "getCurrentTime env_whole_second = Inl (Panic ''slice bounds out of range'')
   \<and> Execute env_whole_second (PostsCreate \<lparr>text = ''Hello'', hashtags = [], imageFile = []\<rparr>)
     = ([SessionRequest ''alice'' ''secret''], 2)"
  by (simp add: Execute_def run_simps format_simps env_whole_second_def)

subsection \<open>Empty input\<close>

lemma Run_without_form_refuses:
  "Run_without_form createPost e \<lparr>text = [], hashtags = tags, imageFile = []\<rparr>
     = ([Println ''Error: You must provide either text content or an image to post''], Inr ())"
  by (simp add: Run_without_form_def)

text \<open>
  C1 fails on the code: with no flags and nothing entered in the form, the command
  authenticates and submits a record with empty text, and reports success. The revision
  without the form refuses the same flags with the missing-input message and no request.
\<close>

theorem Run_empty_input:
  "form_Run env0 = Inr ([], [], [])
   \<and> Run env0 \<lparr>text = [], hashtags = [], imageFile = []\<rparr> =
     ([SessionRequest ''alice'' ''secret'',
       NewRequest ''POST'' ''https://bsky.social/xrpc/com.atproto.repo.createRecord'',
       Send \<lparr>Method = ''POST'', Url = ''https://bsky.social/xrpc/com.atproto.repo.createRecord'',
              Authorization = ''Bearer jwt'', ContentType = ''application/json'', ReqBody = ''{}'',
              Timeout = None\<rparr>,
       Response ''https://bsky.social/xrpc/com.atproto.repo.createRecord'' 200,
       Slog Info ''Post created''
         [(''uri'', AString ''at://did:plc:alice/app.bsky.feed.post/1''), (''cid'', AString ''cid'')],
       Println ''Post created successfully!''],
      Inr ())
   \<and> CreatePost env0 token0 [] [] =
     (fst (submit_record env0 token0
             [(''$type'', JString ''app.bsky.feed.post''), (''text'', JString []),
              (''createdAt'', JString ''2025-01-01T12:30:45.123Z'')]),
      Inr None)"
  by (simp add: run_simps format_simps)

end
